theory Spec2Isabelle
  imports Complex_Main
begin

section \<open>Platform values: colours and doubles\<close>

text \<open>
  \<^verbatim>\<open>QColor\<close> keeps a colour specification and four 16-bit components
  (alpha, then red/green/blue or hue/saturation/lightness). Only the three
  specifications that the code of this repository can produce are modelled.
  An 8-bit channel \<open>v\<close> is stored as \<open>v * 0x101\<close> and read back as the high byte.
\<close>

datatype Spec = Invalid | Rgb | Hsl

record QColor =
  cspec :: Spec
  ct_alpha :: int
  ct_c1 :: int
  ct_c2 :: int
  ct_c3 :: int

definition QColor_default :: QColor where
  \<comment> \<open>\<^verbatim>\<open>QColor()\<close>: invalid, alpha \<^verbatim>\<open>USHRT_MAX\<close>, black.\<close>
  "QColor_default = \<lparr>cspec = Invalid, ct_alpha = 65535, ct_c1 = 0, ct_c2 = 0, ct_c3 = 0\<rparr>"

definition isRgbaValid :: "int \<Rightarrow> int \<Rightarrow> int \<Rightarrow> int \<Rightarrow> bool" where
  "isRgbaValid r g b a \<longleftrightarrow>
     0 \<le> r \<and> r \<le> 255 \<and> 0 \<le> g \<and> g \<le> 255 \<and> 0 \<le> b \<and> b \<le> 255 \<and> 0 \<le> a \<and> a \<le> 255"

definition QColor_rgba :: "int \<Rightarrow> int \<Rightarrow> int \<Rightarrow> int \<Rightarrow> QColor" where
  \<comment> \<open>\<^verbatim>\<open>QColor(int r, int g, int b, int a = 255)\<close>\<close>
  "QColor_rgba r g b a =
     (if isRgbaValid r g b a
      then \<lparr>cspec = Rgb, ct_alpha = a * 257, ct_c1 = r * 257,
            ct_c2 = g * 257, ct_c3 = b * 257\<rparr>
      else \<lparr>cspec = Invalid, ct_alpha = 0, ct_c1 = 0, ct_c2 = 0, ct_c3 = 0\<rparr>)"

definition QColor_rgb :: "int \<Rightarrow> int \<Rightarrow> int \<Rightarrow> QColor" where
  "QColor_rgb r g b = QColor_rgba r g b 255"

definition isValid :: "QColor \<Rightarrow> bool" where
  "isValid c \<longleftrightarrow> cspec c \<noteq> Invalid"

definition Qt_transparent :: QColor where
  "Qt_transparent = QColor_rgba 0 0 0 0"

definition Qt_white :: QColor where
  "Qt_white = QColor_rgb 255 255 255"

definition Qt_black :: QColor where
  "Qt_black = QColor_rgb 0 0 0"

text \<open>
  A C++ \<^verbatim>\<open>double\<close> is modelled by the real number it denotes, or one of the
  three special values. Only comparisons are used on these values; a comparison
  with \<open>NaN\<close> is false.
\<close>

datatype double = Finite real | PosInf | NegInf | NaN

fun dless :: "double \<Rightarrow> double \<Rightarrow> bool" where
  "dless NaN _ = False"
| "dless _ NaN = False"
| "dless (Finite x) (Finite y) = (x < y)"
| "dless (Finite _) PosInf = True"
| "dless (Finite _) NegInf = False"
| "dless PosInf _ = False"
| "dless NegInf NegInf = False"
| "dless NegInf _ = True"

section \<open>Style model (Types.h)\<close>

datatype BlurMode = BlurMode_None | BlurMode_Background | BlurMode_Glass | BlurMode_Frosted

datatype BorderStyle =
  BorderStyle_None | BorderStyle_Solid | BorderStyle_Dashed | BorderStyle_Dotted
  | BorderStyle_Gradient

record Margin =
  m_top :: int
  m_right :: int
  m_bottom :: int
  m_left :: int

definition Margin_default :: Margin where
  "Margin_default = \<lparr>m_top = 0, m_right = 0, m_bottom = 0, m_left = 0\<rparr>"

definition Margin4 :: "int \<Rightarrow> int \<Rightarrow> int \<Rightarrow> int \<Rightarrow> Margin" where
  \<comment> \<open>\<^verbatim>\<open>Margin(int t, int r, int b, int l)\<close>\<close>
  "Margin4 t r b l = \<lparr>m_top = t, m_right = r, m_bottom = b, m_left = l\<rparr>"

record Shadow =
  sh_color :: QColor
  sh_blur :: int
  sh_offsetX :: int
  sh_offsetY :: int
  sh_spread :: int
  sh_enabled :: bool

definition Shadow_default :: Shadow where
  "Shadow_default = \<lparr>sh_color = QColor_rgba 0 0 0 80, sh_blur = 10, sh_offsetX = 0,
     sh_offsetY = 2, sh_spread = 0, sh_enabled = False\<rparr>"

datatype GradientType = Gradient_Linear | Gradient_Radial | Gradient_Conical

record Gradient =
  g_type :: GradientType
  g_start :: QColor
  g_end :: QColor
  g_angle :: double
  g_center :: "double \<times> double"

definition Gradient_default :: Gradient where
  "Gradient_default = \<lparr>g_type = Gradient_Linear, g_start = QColor_default,
     g_end = QColor_default, g_angle = Finite 0, g_center = (Finite 0, Finite 0)\<rparr>"

definition Gradient_isValid :: "Gradient \<Rightarrow> bool" where
  "Gradient_isValid g \<longleftrightarrow> isValid (g_start g) \<and> isValid (g_end g)"

record Border =
  b_color :: QColor
  b_width :: int
  b_radius :: int
  b_style :: BorderStyle

definition Border_default :: Border where
  "Border_default = \<lparr>b_color = Qt_transparent, b_width = 0, b_radius = 0,
     b_style = BorderStyle_Solid\<rparr>"

record StyleSheet =
  backgroundColor :: QColor
  backgroundGradient :: Gradient
  backgroundImage :: string
  textColor :: QColor
  fontFamily :: string
  fontSize :: int
  fontBold :: bool
  fontItalic :: bool
  border :: Border
  shadow :: Shadow
  margin :: Margin
  padding :: Margin
  cornerRadius :: int
  opacity :: double
  blur :: BlurMode
  blurRadius :: double

definition StyleSheet_default :: StyleSheet where
  \<comment> \<open>the member initialisers of \<^verbatim>\<open>struct StyleSheet\<close>\<close>
  "StyleSheet_default = \<lparr>
     backgroundColor = QColor_default,
     backgroundGradient = Gradient_default,
     backgroundImage = [],
     textColor = QColor_default,
     fontFamily = [],
     fontSize = 12,
     fontBold = False,
     fontItalic = False,
     border = Border_default,
     shadow = Shadow_default,
     margin = Margin_default,
     padding = Margin_default,
     cornerRadius = 0,
     opacity = Finite 1,
     blur = BlurMode_None,
     blurRadius = Finite 10\<rparr>"

section \<open>CSSParser::merge\<close>

definition assign_if :: "bool \<Rightarrow> ('s \<Rightarrow> 's) \<Rightarrow> 's \<Rightarrow> 's" where
  \<comment> \<open>one guarded assignment \<^verbatim>\<open>if (c) result.f = v;\<close>\<close>
  "assign_if c u r = (if c then u r else r)"

definition any_side_positive :: "Margin \<Rightarrow> bool" where
  "any_side_positive m \<longleftrightarrow> m_top m > 0 \<or> m_right m > 0 \<or> m_bottom m > 0 \<or> m_left m > 0"

definition merge :: "StyleSheet \<Rightarrow> StyleSheet \<Rightarrow> StyleSheet" where
  \<comment> \<open>\<^verbatim>\<open>StyleSheet result = a;\<close> followed by the guarded assignments in source order\<close>
  "merge a b = fold (\<lambda>stmt result. stmt result)
     [ assign_if (isValid (backgroundColor b)) (\<lambda>r. r\<lparr>backgroundColor := backgroundColor b\<rparr>),
       assign_if (Gradient_isValid (backgroundGradient b))
         (\<lambda>r. r\<lparr>backgroundGradient := backgroundGradient b\<rparr>),
       assign_if (backgroundImage b \<noteq> []) (\<lambda>r. r\<lparr>backgroundImage := backgroundImage b\<rparr>),
       assign_if (isValid (textColor b)) (\<lambda>r. r\<lparr>textColor := textColor b\<rparr>),
       assign_if (fontFamily b \<noteq> []) (\<lambda>r. r\<lparr>fontFamily := fontFamily b\<rparr>),
       assign_if (fontSize b > 0) (\<lambda>r. r\<lparr>fontSize := fontSize b\<rparr>),
       assign_if (fontBold b) (\<lambda>r. r\<lparr>fontBold := fontBold b\<rparr>),
       assign_if (fontItalic b) (\<lambda>r. r\<lparr>fontItalic := fontItalic b\<rparr>),
       assign_if (b_width (border b) > 0) (\<lambda>r. r\<lparr>border := border b\<rparr>),
       assign_if (sh_enabled (shadow b)) (\<lambda>r. r\<lparr>shadow := shadow b\<rparr>),
       assign_if (any_side_positive (margin b)) (\<lambda>r. r\<lparr>margin := margin b\<rparr>),
       assign_if (any_side_positive (padding b)) (\<lambda>r. r\<lparr>padding := padding b\<rparr>),
       assign_if (cornerRadius b > 0) (\<lambda>r. r\<lparr>cornerRadius := cornerRadius b\<rparr>),
       assign_if (dless (opacity b) (Finite 1)) (\<lambda>r. r\<lparr>opacity := opacity b\<rparr>),
       assign_if (blur b \<noteq> BlurMode_None) (\<lambda>r. r\<lparr>blur := blur b, blurRadius := blurRadius b\<rparr>)
     ] a"

text \<open>
  The fields of a StyleSheet as the merge treats them, with the "set" state of each:
  valid colour, non-empty string, positive size, enabled flag, opacity below 1.0,
  blur mode other than None. The blur field carries its radius.
\<close>

datatype field =
  F_backgroundColor | F_backgroundGradient | F_backgroundImage | F_textColor
  | F_fontFamily | F_fontSize | F_fontBold | F_fontItalic | F_border | F_shadow
  | F_margin | F_padding | F_cornerRadius | F_opacity | F_blur

fun is_set :: "field \<Rightarrow> StyleSheet \<Rightarrow> bool" where
  "is_set F_backgroundColor s = isValid (backgroundColor s)"
| "is_set F_backgroundGradient s = Gradient_isValid (backgroundGradient s)"
| "is_set F_backgroundImage s = (backgroundImage s \<noteq> [])"
| "is_set F_textColor s = isValid (textColor s)"
| "is_set F_fontFamily s = (fontFamily s \<noteq> [])"
| "is_set F_fontSize s = (fontSize s > 0)"
| "is_set F_fontBold s = fontBold s"
| "is_set F_fontItalic s = fontItalic s"
| "is_set F_border s = (b_width (border s) > 0)"
| "is_set F_shadow s = sh_enabled (shadow s)"
| "is_set F_margin s = any_side_positive (margin s)"
| "is_set F_padding s = any_side_positive (padding s)"
| "is_set F_cornerRadius s = (cornerRadius s > 0)"
| "is_set F_opacity s = dless (opacity s) (Finite 1)"
| "is_set F_blur s = (blur s \<noteq> BlurMode_None)"

fun same_field :: "field \<Rightarrow> StyleSheet \<Rightarrow> StyleSheet \<Rightarrow> bool" where
  "same_field F_backgroundColor s t = (backgroundColor s = backgroundColor t)"
| "same_field F_backgroundGradient s t = (backgroundGradient s = backgroundGradient t)"
| "same_field F_backgroundImage s t = (backgroundImage s = backgroundImage t)"
| "same_field F_textColor s t = (textColor s = textColor t)"
| "same_field F_fontFamily s t = (fontFamily s = fontFamily t)"
| "same_field F_fontSize s t = (fontSize s = fontSize t)"
| "same_field F_fontBold s t = (fontBold s = fontBold t)"
| "same_field F_fontItalic s t = (fontItalic s = fontItalic t)"
| "same_field F_border s t = (border s = border t)"
| "same_field F_shadow s t = (shadow s = shadow t)"
| "same_field F_margin s t = (margin s = margin t)"
| "same_field F_padding s t = (padding s = padding t)"
| "same_field F_cornerRadius s t = (cornerRadius s = cornerRadius t)"
| "same_field F_opacity s t = (opacity s = opacity t)"
| "same_field F_blur s t = (blur s = blur t \<and> blurRadius s = blurRadius t)"

section \<open>QString operations\<close>

text \<open>
  A \<^verbatim>\<open>QString\<close> is modelled as a list of ASCII characters; the character classes
  and the case mapping are those of \<^verbatim>\<open>QChar\<close> on ASCII. Numbers are kept in
  \<open>int\<close>.
\<close>

definition isSpace :: "char \<Rightarrow> bool" where
  "isSpace c \<longleftrightarrow> c \<in> set [CHR '' '', CHR 0x09, CHR 0x0A, CHR 0x0B, CHR 0x0C, CHR 0x0D]"

definition isDigit :: "char \<Rightarrow> bool" where
  "isDigit c \<longleftrightarrow> c \<in> set ''0123456789''"

definition digit_value :: "char \<Rightarrow> int" where
  "digit_value c =
     (case map_of (zip ''0123456789'' [0, 1, 2, 3, 4, 5, 6, 7, 8, 9]) c of
        Some v \<Rightarrow> v | None \<Rightarrow> 0)"

definition toLower_char :: "char \<Rightarrow> char" where
  "toLower_char c =
     (case map_of (zip ''ABCDEFGHIJKLMNOPQRSTUVWXYZ'' ''abcdefghijklmnopqrstuvwxyz'') c of
        Some l \<Rightarrow> l | None \<Rightarrow> c)"

definition toLower :: "string \<Rightarrow> string" where
  "toLower s = map toLower_char s"

definition trimmed :: "string \<Rightarrow> string" where
  "trimmed s = rev (dropWhile isSpace (rev (dropWhile isSpace s)))"

definition startsWith :: "string \<Rightarrow> string \<Rightarrow> bool" where
  "startsWith s p \<longleftrightarrow> take (length p) s = p"


definition mid :: "string \<Rightarrow> int \<Rightarrow> int \<Rightarrow> string" where
  \<comment> \<open>\<^verbatim>\<open>QString::mid(position, n)\<close>, with the clipping of \<^verbatim>\<open>QContainerImplHelper::mid\<close>\<close>
  "mid s position n =
     (let len = int (length s) in
      if position > len then []
      else if position < 0 then
        (if n < 0 \<or> n + position \<ge> len then s
         else if n + position \<le> 0 then []
         else take (nat (n + position)) s)
      else if n < 0 \<or> n > len - position then drop (nat position) s
      else take (nat n) (drop (nat position) s))"

fun split :: "char \<Rightarrow> string \<Rightarrow> string list" where
  "split sep [] = [[]]"
| "split sep (c # cs) =
     (if c = sep then [] # split sep cs
      else (case split sep cs of p # ps \<Rightarrow> (c # p) # ps | [] \<Rightarrow> [[c]]))"

definition split_skip_empty :: "char \<Rightarrow> string \<Rightarrow> string list" where
  \<comment> \<open>\<^verbatim>\<open>split(sep, Qt::SkipEmptyParts)\<close>\<close>
  "split_skip_empty sep s = filter (\<lambda>p. p \<noteq> []) (split sep s)"

definition remove_char :: "char \<Rightarrow> string \<Rightarrow> string" where
  "remove_char c s = filter (\<lambda>x. x \<noteq> c) s"

function remove_str :: "string \<Rightarrow> string \<Rightarrow> string" where
  "remove_str needle [] = []"
| "remove_str needle (c # cs) =
     (if needle \<noteq> [] \<and> startsWith (c # cs) needle
      then remove_str needle (drop (length needle) (c # cs))
      else c # remove_str needle cs)"
  by pat_completeness auto
termination
  by (relation "measure (\<lambda>(needle, s). length s)") auto

definition digits_value :: "string \<Rightarrow> int" where
  "digits_value ds = foldl (\<lambda>acc c. 10 * acc + digit_value c) 0 ds"

definition toInt_ok :: "string \<Rightarrow> int option" where
  \<comment> \<open>\<^verbatim>\<open>QString::toInt(&ok)\<close> in base 10; \<open>None\<close> when \<^verbatim>\<open>ok\<close> comes back false\<close>
  "toInt_ok str =
     (let t = trimmed str;
          ds = (if startsWith t ''-'' \<or> startsWith t ''+'' then tl t else t)
      in if ds = [] \<or> \<not> list_all isDigit ds then None
         else (let v = (if startsWith t ''-'' then - digits_value ds else digits_value ds)
               in if - 2147483648 \<le> v \<and> v \<le> 2147483647 then Some v else None))"

definition toInt :: "string \<Rightarrow> int" where
  \<comment> \<open>\<^verbatim>\<open>QString::toInt()\<close>: 0 when the conversion fails\<close>
  "toInt str = (case toInt_ok str of Some v \<Rightarrow> v | None \<Rightarrow> 0)"

definition digit_char :: "int \<Rightarrow> char" where
  "digit_char d = ''0123456789abcdef'' ! nat d"

function number_digits :: "int \<Rightarrow> int \<Rightarrow> string" where
  \<comment> \<open>the digits of \<open>n \<ge> 0\<close> in base \<open>b\<close>, most significant first\<close>
  "number_digits b n =
     (if n < b \<or> b < 2 then [digit_char n]
      else number_digits b (n div b) @ [digit_char (n mod b)])"
  by pat_completeness auto
termination
proof (relation "measure (\<lambda>(b, n). nat n)")
  fix b n :: int
  assume "\<not> (n < b \<or> b < 2)"
  then have "n div b < n" and "0 < n"
    by (simp_all add: int_div_less_self)
  then show "((b, n div b), (b, n)) \<in> measure (\<lambda>(b, n). nat n)"
    by simp
qed simp

definition number :: "int \<Rightarrow> string" where
  \<comment> \<open>\<^verbatim>\<open>.arg(int)\<close>: decimal, with a minus sign when negative\<close>
  "number n = (if n < 0 then CHR ''-'' # number_digits 10 (- n) else number_digits 10 n)"


section \<open>Conversions through \<^verbatim>\<open>double\<close>\<close>

text \<open>
  \<^verbatim>\<open>static_cast<int>(alphaStr.toDouble() * 255)\<close> is computed on the exact binary64
  values. A decimal literal \<open>\<plusminus> M \<times> 10\<^sup>k\<close> is rounded to the nearest double (ties
  to even), the product with 255 is rounded again, and the cast truncates towards
  zero. A literal that \<^verbatim>\<open>QString::toDouble\<close> rejects converts to 0.0. Where the
  double does not fit an \<^verbatim>\<open>int\<close> the cast is undefined in C++; the model returns
  \<^verbatim>\<open>INT_MIN\<close>, which is what x86-64 produces.
\<close>

definition parse_decimal :: "string \<Rightarrow> (bool \<times> int \<times> int) option" where
  \<comment> \<open>sign, mantissa \<open>M\<close> and decimal exponent \<open>k\<close> of a literal
      \<^verbatim>\<open>[+-] digits [. digits] [e [+-] digits]\<close>\<close>
  "parse_decimal str =
     (let t = trimmed str;
          neg = startsWith t ''-'';
          u = (if startsWith t ''-'' \<or> startsWith t ''+'' then tl t else t);
          ip = takeWhile isDigit u;
          r1 = dropWhile isDigit u;
          fp = (if startsWith r1 ''.'' then takeWhile isDigit (tl r1) else []);
          r2 = (if startsWith r1 ''.'' then dropWhile isDigit (tl r1) else r1)
      in if ip = [] \<and> fp = [] then None
         else if r2 = [] then Some (neg, digits_value (ip @ fp), - int (length fp))
         else if startsWith r2 ''e'' \<or> startsWith r2 ''E'' then
           (let x = tl r2;
                xd = (if startsWith x ''-'' \<or> startsWith x ''+'' then tl x else x)
            in if xd = [] \<or> \<not> list_all isDigit xd then None
               else Some (neg, digits_value (ip @ fp),
                          (if startsWith x ''-'' then - digits_value xd else digits_value xd)
                            - int (length fp)))
         else None)"

definition round_half_even :: "int \<Rightarrow> int \<Rightarrow> int" where
  \<comment> \<open>\<open>n / d\<close> rounded to the nearest integer, ties to even (\<open>n \<ge> 0\<close>, \<open>d > 0\<close>)\<close>
  "round_half_even n d =
     (let q = n div d; r = n mod d
      in if 2 * r < d then q else if 2 * r > d then q + 1 else if even q then q else q + 1)"

function bit_length :: "int \<Rightarrow> int" where
  "bit_length n = (if n \<le> 0 then 0 else 1 + bit_length (n div 2))"
  by pat_completeness auto
termination
  by (relation "measure nat") auto

definition floor_log2 :: "int \<Rightarrow> int \<Rightarrow> int" where
  \<comment> \<open>\<open>\<lfloor>log\<^sub>2 (n / d)\<rfloor>\<close> for \<open>n > 0\<close>, \<open>d > 0\<close>\<close>
  "floor_log2 n d =
     (let e = bit_length n - bit_length d
      in if (if e \<ge> 0 then d * 2 ^ nat e \<le> n else d \<le> n * 2 ^ nat (- e)) then e else e - 1)"

definition to_binary64 :: "int \<Rightarrow> int \<Rightarrow> (int \<times> int) option" where
  \<comment> \<open>the double nearest to \<open>n / d\<close> (\<open>n \<ge> 0\<close>, \<open>d > 0\<close>) as \<open>(m, e)\<close> with value
      \<open>m \<times> 2\<^sup>e\<close>; \<open>None\<close> is infinity\<close>
  "to_binary64 n d =
     (if n = 0 then Some (0, 0)
      else (let e = max (floor_log2 n d) (- 1022);
                sc = e - 52;
                m = (if sc \<ge> 0 then round_half_even n (d * 2 ^ nat sc)
                     else round_half_even (n * 2 ^ nat (- sc)) d)
            in if sc \<ge> 0 \<and> 2 ^ 1024 \<le> m * 2 ^ nat sc then None else Some (m, sc)))"

definition INT_MIN :: int where
  "INT_MIN = - 2147483648"

definition times255_toInt :: "string \<Rightarrow> int" where
  \<comment> \<open>\<^verbatim>\<open>static_cast<int>(alphaStr.toDouble() * 255)\<close>\<close>
  "times255_toInt alphaStr =
     (case parse_decimal alphaStr of
        None \<Rightarrow> 0
      | Some (neg, M, k) \<Rightarrow>
          (case to_binary64 (if k \<ge> 0 then M * 10 ^ nat k else M)
                            (if k \<ge> 0 then 1 else 10 ^ nat (- k)) of
             None \<Rightarrow> INT_MIN
           | Some (m, e) \<Rightarrow>
               (case to_binary64 (if e \<ge> 0 then 255 * m * 2 ^ nat e else 255 * m)
                                 (if e \<ge> 0 then 1 else 2 ^ nat (- e)) of
                  None \<Rightarrow> INT_MIN
                | Some (m2, e2) \<Rightarrow>
                    (let t = (if e2 \<ge> 0 then m2 * 2 ^ nat e2 else m2 div 2 ^ nat (- e2))
                     in if neg then (if t \<le> 2147483648 then - t else INT_MIN)
                        else (if t \<le> 2147483647 then t else INT_MIN)))))"


section \<open>More of \<^verbatim>\<open>QColor\<close>\<close>

definition invalidate :: QColor where
  \<comment> \<open>the state \<^verbatim>\<open>QColor::invalidate()\<close> leaves\<close>
  "invalidate = \<lparr>cspec = Invalid, ct_alpha = 65535, ct_c1 = 0, ct_c2 = 0, ct_c3 = 0\<rparr>"

definition setHsl :: "int \<Rightarrow> int \<Rightarrow> int \<Rightarrow> int \<Rightarrow> QColor" where
  \<comment> \<open>\<^verbatim>\<open>QColor c; c.setHsl(h, s, l, a)\<close>\<close>
  "setHsl h s l a =
     (if h < - 1 \<or> s < 0 \<or> s > 255 \<or> l < 0 \<or> l > 255 \<or> a < 0 \<or> a > 255 then invalidate
      else \<lparr>cspec = Hsl, ct_alpha = a * 257,
             ct_c1 = (if h = - 1 then 65535 else (h mod 360) * 100),
             ct_c2 = s * 257, ct_c3 = l * 257\<rparr>)"




definition alpha :: "QColor \<Rightarrow> int" where
  "alpha c = ct_alpha c div 256"



definition h2i :: "char \<Rightarrow> int" where
  "h2i c =
     (case map_of (zip ''0123456789abcdefABCDEF''
             [0, 1, 2, 3, 4, 5, 6, 7, 8, 9, 10, 11, 12, 13, 14, 15, 10, 11, 12, 13, 14, 15]) c of
        Some v \<Rightarrow> v | None \<Rightarrow> - 1)"

definition hex2int :: "string \<Rightarrow> int" where
  \<comment> \<open>\<open>- 1\<close> as soon as one character is not a hex digit\<close>
  "hex2int s = foldl (\<lambda>acc c. if acc < 0 \<or> h2i c < 0 then - 1 else acc * 16 + h2i c) 0 s"

definition get_hex_rgb :: "string \<Rightarrow> QColor option" where
  \<comment> \<open>the text after \<^verbatim>\<open>#\<close>: 3, 6, 8 (\<^verbatim>\<open>AARRGGBB\<close>), 9 or 12 hex digits\<close>
  "get_hex_rgb h =
     (let len = length h;
          a = (if len = 8 then hex2int (take 2 h) * 257 else 65535);
          rgb =
            (if len = 12 then
               Some (hex2int (take 4 h), hex2int (take 4 (drop 4 h)), hex2int (drop 8 h))
             else if len = 9 then
               (let r = hex2int (take 3 h); g = hex2int (take 3 (drop 3 h));
                    b = hex2int (drop 6 h)
                in if r = - 1 \<or> g = - 1 \<or> b = - 1 then None
                   else Some (r * 16 + r div 256, g * 16 + g div 256, b * 16 + b div 256))
             else if len = 8 then
               Some (hex2int (take 2 (drop 2 h)) * 257, hex2int (take 2 (drop 4 h)) * 257,
                     hex2int (drop 6 h) * 257)
             else if len = 6 then
               Some (hex2int (take 2 h) * 257, hex2int (take 2 (drop 2 h)) * 257,
                     hex2int (drop 4 h) * 257)
             else if len = 3 then
               Some (hex2int (take 1 h) * 4369, hex2int (take 1 (drop 1 h)) * 4369,
                     hex2int (drop 2 h) * 4369)
             else None)
      in case rgb of
           None \<Rightarrow> None
         | Some (r, g, b) \<Rightarrow>
             if r < 0 \<or> r > 65535 \<or> g < 0 \<or> g > 65535 \<or> b < 0 \<or> b > 65535
                \<or> a < 0 \<or> a > 65535
             then None
             else Some \<lparr>cspec = Rgb, ct_alpha = a, ct_c1 = r, ct_c2 = g, ct_c3 = b\<rparr>)"

definition rgbTbl :: "(string \<times> int \<times> int \<times> int \<times> int) list" where
  \<comment> \<open>Qt's table of SVG colour names: red, green, blue, alpha\<close>
  "rgbTbl = [
    (''aliceblue'', 240, 248, 255, 255), (''antiquewhite'', 250, 235, 215, 255),
    (''aqua'', 0, 255, 255, 255), (''aquamarine'', 127, 255, 212, 255),
    (''azure'', 240, 255, 255, 255), (''beige'', 245, 245, 220, 255),
    (''bisque'', 255, 228, 196, 255), (''black'', 0, 0, 0, 255),
    (''blanchedalmond'', 255, 235, 205, 255), (''blue'', 0, 0, 255, 255),
    (''blueviolet'', 138, 43, 226, 255), (''brown'', 165, 42, 42, 255),
    (''burlywood'', 222, 184, 135, 255), (''cadetblue'', 95, 158, 160, 255),
    (''chartreuse'', 127, 255, 0, 255), (''chocolate'', 210, 105, 30, 255),
    (''coral'', 255, 127, 80, 255), (''cornflowerblue'', 100, 149, 237, 255),
    (''cornsilk'', 255, 248, 220, 255), (''crimson'', 220, 20, 60, 255),
    (''cyan'', 0, 255, 255, 255), (''darkblue'', 0, 0, 139, 255),
    (''darkcyan'', 0, 139, 139, 255), (''darkgoldenrod'', 184, 134, 11, 255),
    (''darkgray'', 169, 169, 169, 255), (''darkgreen'', 0, 100, 0, 255),
    (''darkgrey'', 169, 169, 169, 255), (''darkkhaki'', 189, 183, 107, 255),
    (''darkmagenta'', 139, 0, 139, 255), (''darkolivegreen'', 85, 107, 47, 255),
    (''darkorange'', 255, 140, 0, 255), (''darkorchid'', 153, 50, 204, 255),
    (''darkred'', 139, 0, 0, 255), (''darksalmon'', 233, 150, 122, 255),
    (''darkseagreen'', 143, 188, 143, 255), (''darkslateblue'', 72, 61, 139, 255),
    (''darkslategray'', 47, 79, 79, 255), (''darkslategrey'', 47, 79, 79, 255),
    (''darkturquoise'', 0, 206, 209, 255), (''darkviolet'', 148, 0, 211, 255),
    (''deeppink'', 255, 20, 147, 255), (''deepskyblue'', 0, 191, 255, 255),
    (''dimgray'', 105, 105, 105, 255), (''dimgrey'', 105, 105, 105, 255),
    (''dodgerblue'', 30, 144, 255, 255), (''firebrick'', 178, 34, 34, 255),
    (''floralwhite'', 255, 250, 240, 255), (''forestgreen'', 34, 139, 34, 255),
    (''fuchsia'', 255, 0, 255, 255), (''gainsboro'', 220, 220, 220, 255),
    (''ghostwhite'', 248, 248, 255, 255), (''gold'', 255, 215, 0, 255),
    (''goldenrod'', 218, 165, 32, 255), (''gray'', 128, 128, 128, 255),
    (''green'', 0, 128, 0, 255), (''greenyellow'', 173, 255, 47, 255),
    (''grey'', 128, 128, 128, 255), (''honeydew'', 240, 255, 240, 255),
    (''hotpink'', 255, 105, 180, 255), (''indianred'', 205, 92, 92, 255),
    (''indigo'', 75, 0, 130, 255), (''ivory'', 255, 255, 240, 255),
    (''khaki'', 240, 230, 140, 255), (''lavender'', 230, 230, 250, 255),
    (''lavenderblush'', 255, 240, 245, 255), (''lawngreen'', 124, 252, 0, 255),
    (''lemonchiffon'', 255, 250, 205, 255), (''lightblue'', 173, 216, 230, 255),
    (''lightcoral'', 240, 128, 128, 255), (''lightcyan'', 224, 255, 255, 255),
    (''lightgoldenrodyellow'', 250, 250, 210, 255), (''lightgray'', 211, 211, 211, 255),
    (''lightgreen'', 144, 238, 144, 255), (''lightgrey'', 211, 211, 211, 255),
    (''lightpink'', 255, 182, 193, 255), (''lightsalmon'', 255, 160, 122, 255),
    (''lightseagreen'', 32, 178, 170, 255), (''lightskyblue'', 135, 206, 250, 255),
    (''lightslategray'', 119, 136, 153, 255), (''lightslategrey'', 119, 136, 153, 255),
    (''lightsteelblue'', 176, 196, 222, 255), (''lightyellow'', 255, 255, 224, 255),
    (''lime'', 0, 255, 0, 255), (''limegreen'', 50, 205, 50, 255),
    (''linen'', 250, 240, 230, 255), (''magenta'', 255, 0, 255, 255),
    (''maroon'', 128, 0, 0, 255), (''mediumaquamarine'', 102, 205, 170, 255),
    (''mediumblue'', 0, 0, 205, 255), (''mediumorchid'', 186, 85, 211, 255),
    (''mediumpurple'', 147, 112, 219, 255), (''mediumseagreen'', 60, 179, 113, 255),
    (''mediumslateblue'', 123, 104, 238, 255), (''mediumspringgreen'', 0, 250, 154, 255),
    (''mediumturquoise'', 72, 209, 204, 255), (''mediumvioletred'', 199, 21, 133, 255),
    (''midnightblue'', 25, 25, 112, 255), (''mintcream'', 245, 255, 250, 255),
    (''mistyrose'', 255, 228, 225, 255), (''moccasin'', 255, 228, 181, 255),
    (''navajowhite'', 255, 222, 173, 255), (''navy'', 0, 0, 128, 255),
    (''oldlace'', 253, 245, 230, 255), (''olive'', 128, 128, 0, 255),
    (''olivedrab'', 107, 142, 35, 255), (''orange'', 255, 165, 0, 255),
    (''orangered'', 255, 69, 0, 255), (''orchid'', 218, 112, 214, 255),
    (''palegoldenrod'', 238, 232, 170, 255), (''palegreen'', 152, 251, 152, 255),
    (''paleturquoise'', 175, 238, 238, 255), (''palevioletred'', 219, 112, 147, 255),
    (''papayawhip'', 255, 239, 213, 255), (''peachpuff'', 255, 218, 185, 255),
    (''peru'', 205, 133, 63, 255), (''pink'', 255, 192, 203, 255),
    (''plum'', 221, 160, 221, 255), (''powderblue'', 176, 224, 230, 255),
    (''purple'', 128, 0, 128, 255), (''red'', 255, 0, 0, 255),
    (''rosybrown'', 188, 143, 143, 255), (''royalblue'', 65, 105, 225, 255),
    (''saddlebrown'', 139, 69, 19, 255), (''salmon'', 250, 128, 114, 255),
    (''sandybrown'', 244, 164, 96, 255), (''seagreen'', 46, 139, 87, 255),
    (''seashell'', 255, 245, 238, 255), (''sienna'', 160, 82, 45, 255),
    (''silver'', 192, 192, 192, 255), (''skyblue'', 135, 206, 235, 255),
    (''slateblue'', 106, 90, 205, 255), (''slategray'', 112, 128, 144, 255),
    (''slategrey'', 112, 128, 144, 255), (''snow'', 255, 250, 250, 255),
    (''springgreen'', 0, 255, 127, 255), (''steelblue'', 70, 130, 180, 255),
    (''tan'', 210, 180, 140, 255), (''teal'', 0, 128, 128, 255),
    (''thistle'', 216, 191, 216, 255), (''tomato'', 255, 99, 71, 255),
    (''transparent'', 0, 0, 0, 0), (''turquoise'', 64, 224, 208, 255),
    (''violet'', 238, 130, 238, 255), (''wheat'', 245, 222, 179, 255),
    (''white'', 255, 255, 255, 255), (''whitesmoke'', 245, 245, 245, 255),
    (''yellow'', 255, 255, 0, 255), (''yellowgreen'', 154, 205, 50, 255)]"

definition get_named_rgb :: "string \<Rightarrow> QColor option" where
  \<comment> \<open>spaces and tabs dropped, lower-cased, then looked up\<close>
  "get_named_rgb nm =
     (if length nm > 255 then None
      else (case map_of rgbTbl
                  (toLower (filter (\<lambda>c. c \<noteq> CHR 0x09 \<and> c \<noteq> CHR '' '') nm)) of
              None \<Rightarrow> None
            | Some (r, g, b, a) \<Rightarrow> Some (QColor_rgba r g b a)))"

definition QColor_fromString :: "string \<Rightarrow> QColor" where
  \<comment> \<open>\<^verbatim>\<open>QColor(const QString &name)\<close>\<close>
  "QColor_fromString nm =
     (if nm = [] then invalidate
      else if hd nm = CHR ''#'' then
        (if length nm > 13 then invalidate
         else (case get_hex_rgb (tl nm) of Some c \<Rightarrow> c | None \<Rightarrow> invalidate))
      else (case get_named_rgb nm of Some c \<Rightarrow> c | None \<Rightarrow> invalidate))"

section \<open>Colour utilities (namespace \<^verbatim>\<open>Color\<close>)\<close>

definition cdiv :: "int \<Rightarrow> int \<Rightarrow> int" where
  \<comment> \<open>C++ integer division, truncating towards zero\<close>
  "cdiv a b = sgn a * sgn b * (\<bar>a\<bar> div \<bar>b\<bar>)"

definition wrap32 :: "int \<Rightarrow> int" where
  \<comment> \<open>an \<^verbatim>\<open>int\<close> result reduced to 32 bits, two's complement\<close>
  "wrap32 v = (v + 2147483648) mod 4294967296 - 2147483648"

definition Color_Red :: QColor where "Color_Red = QColor_rgb 255 0 0"
definition Color_Green :: QColor where "Color_Green = QColor_rgb 0 255 0"
definition Color_Blue :: QColor where "Color_Blue = QColor_rgb 0 0 255"
definition Color_Yellow :: QColor where "Color_Yellow = QColor_rgb 255 255 0"
definition Color_Cyan :: QColor where "Color_Cyan = QColor_rgb 0 255 255"
definition Color_Magenta :: QColor where "Color_Magenta = QColor_rgb 255 0 255"
definition Color_Orange :: QColor where "Color_Orange = QColor_rgb 255 165 0"
definition Color_Purple :: QColor where "Color_Purple = QColor_rgb 128 0 128"
definition Color_Pink :: QColor where "Color_Pink = QColor_rgb 255 192 203"
definition Color_Gray :: QColor where "Color_Gray = QColor_rgb 128 128 128"

definition parse_rgb :: "string \<Rightarrow> QColor option" where
  \<comment> \<open>the \<^verbatim>\<open>rgb(\<close> block of \<^verbatim>\<open>Color::parse\<close>; \<open>None\<close> when control falls through\<close>
  "parse_rgb s =
     (if startsWith s ''rgb('' then
        (let inner = mid s 4 (int (length s) - 5);
             parts = split CHR '','' inner
         in if length parts \<ge> 3
            then Some (QColor_rgb (toInt (trimmed (parts ! 0))) (toInt (trimmed (parts ! 1)))
                         (toInt (trimmed (parts ! 2))))
            else None)
      else None)"

definition parse_rgba :: "string \<Rightarrow> QColor option" where
  "parse_rgba s =
     (if startsWith s ''rgba('' then
        (let inner = mid s 5 (int (length s) - 6);
             parts = split CHR '','' inner
         in if length parts \<ge> 4
            then (let alphaStr = trimmed (parts ! 3);
                      a = (if CHR ''.'' \<in> set alphaStr then times255_toInt alphaStr
                           else toInt alphaStr)
                  in Some (QColor_rgba (toInt (trimmed (parts ! 0)))
                             (toInt (trimmed (parts ! 1))) (toInt (trimmed (parts ! 2))) a))
            else None)
      else None)"

definition parse_hsl :: "string \<Rightarrow> QColor option" where
  "parse_hsl s =
     (if startsWith s ''hsl('' then
        (let inner = mid s 4 (int (length s) - 5);
             parts = split CHR '','' inner
         in if length parts \<ge> 3
            then (let h = toInt (trimmed (parts ! 0));
                      sat = toInt (remove_char CHR ''%'' (trimmed (parts ! 1)));
                      light = toInt (remove_char CHR ''%'' (trimmed (parts ! 2)))
                  in Some (setHsl h (cdiv (wrap32 (sat * 255)) 100)
                             (cdiv (wrap32 (light * 255)) 100) 255))
            else None)
      else None)"

definition named_color :: "string \<Rightarrow> QColor option" where
  \<comment> \<open>the chain of name comparisons\<close>
  "named_color s =
     (if s = ''transparent'' then Some Qt_transparent
      else if s = ''white'' then Some Qt_white
      else if s = ''black'' then Some Qt_black
      else if s = ''red'' then Some Color_Red
      else if s = ''green'' then Some Color_Green
      else if s = ''blue'' then Some Color_Blue
      else if s = ''yellow'' then Some Color_Yellow
      else if s = ''cyan'' then Some Color_Cyan
      else if s = ''magenta'' then Some Color_Magenta
      else if s = ''orange'' then Some Color_Orange
      else if s = ''purple'' then Some Color_Purple
      else if s = ''pink'' then Some Color_Pink
      else if s = ''gray'' \<or> s = ''grey'' then Some Color_Gray
      else None)"

definition Color_parse :: "string \<Rightarrow> QColor" where
  \<comment> \<open>\<^verbatim>\<open>Color::parse\<close>\<close>
  "Color_parse str =
     (let s = toLower (trimmed str)
      in case parse_rgb s of Some c \<Rightarrow> c | None \<Rightarrow>
         (case parse_rgba s of Some c \<Rightarrow> c | None \<Rightarrow>
         (case parse_hsl s of Some c \<Rightarrow> c | None \<Rightarrow>
         (case named_color s of Some c \<Rightarrow> c | None \<Rightarrow> QColor_fromString str))))"





section \<open>The inline \<^verbatim>\<open>parseColor\<close> of Types.h\<close>


section \<open>CSS value parsers\<close>


definition parsePixels :: "string \<Rightarrow> int" where
  "parsePixels v =
     toInt (remove_str ''rem'' (remove_str ''em'' (remove_str ''pt'' (remove_str ''px''
       (toLower (trimmed v))))))"








definition parseMargin :: "string \<Rightarrow> Margin" where
  "parseMargin v =
     (let parts = split_skip_empty CHR '' '' v
      in if length parts = 1 then
           (let x = parsePixels (parts ! 0) in Margin4 x x x x)
         else if length parts = 2 then
           (let x = parsePixels (parts ! 0); h = parsePixels (parts ! 1) in Margin4 x h x h)
         else if length parts = 3 then
           Margin_default\<lparr>m_top := parsePixels (parts ! 0), m_right := parsePixels (parts ! 1),
             m_left := parsePixels (parts ! 1), m_bottom := parsePixels (parts ! 2)\<rparr>
         else if length parts \<ge> 4 then
           Margin_default\<lparr>m_top := parsePixels (parts ! 0), m_right := parsePixels (parts ! 1),
             m_bottom := parsePixels (parts ! 2), m_left := parsePixels (parts ! 3)\<rparr>
         else Margin_default)"


section \<open>Tokens of the border and shadow shorthands\<close>




declare number_digits.simps [simp del]

declare bit_length.simps [simp del]

section \<open>Canonical colour texts\<close>






definition rgba_alpha_token :: "string \<Rightarrow> string" where
  \<comment> \<open>\<^verbatim>\<open>alphaStr\<close>: the trimmed fourth part of an \<^verbatim>\<open>rgba(\<close> string\<close>
  "rgba_alpha_token str =
     (let s = toLower (trimmed str)
      in trimmed (split CHR '','' (mid s 5 (int (length s) - 6)) ! 3))"


section \<open>Widget (MilkWidget.h, Widget.cpp)\<close>

datatype Shape =
  Shape_Rectangle | Shape_RoundedRect | Shape_Circle | Shape_Ellipse | Shape_Square
  | Shape_Custom

datatype Position =
  TopLeft | TopCenter | TopRight | CenterLeft | Center | CenterRight | BottomLeft
  | BottomCenter | BottomRight | Manual

datatype Animation =
  Animation_None | FadeIn | FadeOut | SlideIn | SlideOut | Bounce | Pulse | Scale | Shake
  | Glow

text \<open>
  A \<^verbatim>\<open>QPropertyAnimation\<close> as the widget uses it: the timing state of
  \<^verbatim>\<open>QAbstractAnimation\<close> and the lambda connected to its \<^verbatim>\<open>finished\<close> signal. The easing
  curve and the key values only shape the intermediate values and are left out.
\<close>

datatype State = Stopped | Paused | Running

datatype handler =
  H_none | H_fadeIn | H_fadeOut | H_fadeTo | H_bounce | H_shake | H_scale | H_move
  | H_slideIn | H_slideOut

record QPropertyAnimation =
  a_property :: string
  a_duration :: int
  a_loopCount :: int
  a_state :: State
  a_totalCurrentTime :: int
  a_currentTime :: int
  a_currentLoop :: int
  a_onFinished :: handler
  a_deleteLater :: bool

datatype emitted =
  Signal_animationFinished Animation
  | Signal_shown
  | Signal_hidden
  | Call_animationCallback
  | Run_finished_handler nat

text \<open>
  The animation objects a widget has created live in \<open>heap\<close>, addressed by index;
  \<open>m_animations\<close> maps a name to such an index. \<open>events\<close> records, oldest first, the
  signals the widget emits, the invocations of the installed animation callback and
  each run of a finished-handler (with the index of the animation it belongs to).
\<close>

record Widget =
  w_width :: int
  w_height :: int
  visible :: bool
  windowOpacity :: double
  contentsMargins :: "int \<times> int \<times> int \<times> int"
  m_shape :: Shape
  m_cornerRadius :: int
  m_bgColor :: QColor
  m_bgGradient :: Gradient
  m_bgImage :: string
  m_opacity :: double
  m_border :: Border
  m_shadow :: Shadow
  m_style :: StyleSheet
  m_blurMode :: BlurMode
  m_blurRadius :: double
  m_draggable :: bool
  m_initialized :: bool
  m_animations :: "(string \<times> nat) list"
  heap :: "QPropertyAnimation list"
  m_animationCallback :: bool
  events :: "emitted list"

definition Widget_new :: "int \<Rightarrow> int \<Rightarrow> Widget" where
  \<comment> \<open>the member initialisers and the constructor \<^verbatim>\<open>Widget(width, height)\<close>\<close>
  "Widget_new width height = \<lparr>
     w_width = width, w_height = height, visible = False, windowOpacity = Finite 1,
     contentsMargins = (15, 15, 15, 15),
     m_shape = Shape_Rectangle, m_cornerRadius = 0, m_bgColor = QColor_rgba 30 30 40 220,
     m_bgGradient = Gradient_default, m_bgImage = [], m_opacity = Finite 1,
     m_border = Border_default, m_shadow = Shadow_default, m_style = StyleSheet_default,
     m_blurMode = BlurMode_None, m_blurRadius = Finite 10, m_draggable = True,
     m_initialized = True, m_animations = [], heap = [], m_animationCallback = False,
     events = []\<rparr>"

definition qMin :: "double \<Rightarrow> double \<Rightarrow> double" where
  "qMin a b = (if dless a b then a else b)"

definition qMax :: "double \<Rightarrow> double \<Rightarrow> double" where
  "qMax a b = (if dless a b then b else a)"

definition qBound :: "double \<Rightarrow> double \<Rightarrow> double \<Rightarrow> double" where
  "qBound mn val mx = qMax mn (qMin mx val)"

definition setShape :: "Shape \<Rightarrow> Widget \<Rightarrow> Widget" where
  "setShape shape w =
     (let w1 = w\<lparr>m_shape := shape\<rparr>
      in if shape = Shape_Circle \<or> shape = Shape_Square
         then (let s = min (w_width w1) (w_height w1) in w1\<lparr>w_width := s, w_height := s\<rparr>)
         else w1)"

definition setRounded :: "int \<Rightarrow> Widget \<Rightarrow> Widget" where
  "setRounded radius w = w\<lparr>m_cornerRadius := radius, m_shape := Shape_RoundedRect\<rparr>"

definition setSize :: "int \<Rightarrow> int \<Rightarrow> Widget \<Rightarrow> Widget" where
  "setSize wd ht w = w\<lparr>w_width := wd, w_height := ht\<rparr>"

definition setBackground :: "string \<Rightarrow> Widget \<Rightarrow> Widget" where
  "setBackground color w = w\<lparr>m_bgColor := Color_parse color\<rparr>"

definition setBackgroundColor :: "QColor \<Rightarrow> Widget \<Rightarrow> Widget" where
  "setBackgroundColor color w = w\<lparr>m_bgColor := color\<rparr>"

definition setOpacity :: "double \<Rightarrow> Widget \<Rightarrow> Widget" where
  "setOpacity op w =
     (let w1 = w\<lparr>m_opacity := qBound (Finite 0) op (Finite 1)\<rparr>
      in w1\<lparr>windowOpacity := m_opacity w1\<rparr>)"

definition setAlpha :: "int \<Rightarrow> QColor \<Rightarrow> QColor" where
  \<comment> \<open>\<^verbatim>\<open>QColor::setAlpha\<close> for an alpha in 0..255\<close>
  "setAlpha a c = c\<lparr>ct_alpha := a * 257\<rparr>"

definition setBlur :: "BlurMode \<Rightarrow> double \<Rightarrow> Widget \<Rightarrow> Widget" where
  "setBlur mode radius w =
     (let w1 = w\<lparr>m_blurMode := mode, m_blurRadius := radius\<rparr>
      in if mode \<noteq> BlurMode_None \<and> alpha (m_bgColor w1) > 150
         then w1\<lparr>m_bgColor := setAlpha 100 (m_bgColor w1)\<rparr> else w1)"

definition setGlass :: "bool \<Rightarrow> Widget \<Rightarrow> Widget" where
  "setGlass enabled w = setBlur (if enabled then BlurMode_Glass else BlurMode_None) (Finite 10) w"

definition setShadow :: "QColor \<Rightarrow> int \<Rightarrow> int \<Rightarrow> int \<Rightarrow> Widget \<Rightarrow> Widget" where
  "setShadow color blr offsetX offsetY w =
     w\<lparr>m_shadow := (m_shadow w)\<lparr>sh_color := color, sh_blur := blr, sh_offsetX := offsetX,
          sh_offsetY := offsetY, sh_enabled := True\<rparr>\<rparr>"

definition removeShadow :: "Widget \<Rightarrow> Widget" where
  "removeShadow w = w\<lparr>m_shadow := (m_shadow w)\<lparr>sh_enabled := False\<rparr>\<rparr>"

definition setBorder :: "QColor \<Rightarrow> int \<Rightarrow> Widget \<Rightarrow> Widget" where
  "setBorder color width w = w\<lparr>m_border := (m_border w)\<lparr>b_color := color, b_width := width\<rparr>\<rparr>"

definition setBorderStruct :: "Border \<Rightarrow> Widget \<Rightarrow> Widget" where
  \<comment> \<open>\<^verbatim>\<open>setBorder(const Border&)\<close>\<close>
  "setBorderStruct bd w = w\<lparr>m_border := bd\<rparr>"

definition removeBorder :: "Widget \<Rightarrow> Widget" where
  "removeBorder w = w\<lparr>m_border := (m_border w)\<lparr>b_width := 0\<rparr>\<rparr>"

definition setDraggable :: "bool \<Rightarrow> Widget \<Rightarrow> Widget" where
  "setDraggable enabled w = w\<lparr>m_draggable := enabled\<rparr>"

definition setMargin :: "int \<Rightarrow> Widget \<Rightarrow> Widget" where
  "setMargin mg w = w\<lparr>contentsMargins := (mg, mg, mg, mg)\<rparr>"

definition setAnimationCallback :: "bool \<Rightarrow> Widget \<Rightarrow> Widget" where
  \<comment> \<open>a callback is installed (\<open>True\<close>) or an empty \<^verbatim>\<open>std::function\<close> is (\<open>False\<close>)\<close>
  "setAnimationCallback installed w = w\<lparr>m_animationCallback := installed\<rparr>"

definition Border_isVisible :: "Border \<Rightarrow> bool" where
  "Border_isVisible bd \<longleftrightarrow> b_width bd > 0 \<and> alpha (b_color bd) > 0"

definition setStyle_statements :: "StyleSheet \<Rightarrow> (Widget \<Rightarrow> Widget) list" where
  \<comment> \<open>the statements of \<^verbatim>\<open>Widget::setStyle\<close>, in source order\<close>
  "setStyle_statements style =
     [ (\<lambda>x. x\<lparr>m_style := style\<rparr>),
       assign_if (isValid (backgroundColor style)) (\<lambda>x. x\<lparr>m_bgColor := backgroundColor style\<rparr>),
       assign_if (Gradient_isValid (backgroundGradient style))
         (\<lambda>x. x\<lparr>m_bgGradient := backgroundGradient style\<rparr>),
       assign_if (cornerRadius style > 0) (setRounded (cornerRadius style)),
       assign_if (Border_isVisible (border style)) (setBorderStruct (border style)),
       assign_if (sh_enabled (shadow style))
         (setShadow (sh_color (shadow style)) (sh_blur (shadow style))
            (sh_offsetX (shadow style)) (sh_offsetY (shadow style))),
       assign_if (dless (opacity style) (Finite 1)) (setOpacity (opacity style)),
       assign_if (blur style \<noteq> BlurMode_None) (setBlur (blur style) (blurRadius style)),
       (\<lambda>x. x\<lparr>contentsMargins :=
          (wrap32 (m_left (padding style) + m_left (margin style)),
           wrap32 (m_top (padding style) + m_top (margin style)),
           wrap32 (m_right (padding style) + m_right (margin style)),
           wrap32 (m_bottom (padding style) + m_bottom (margin style)))\<rparr>)
     ]"

definition setStyle :: "StyleSheet \<Rightarrow> Widget \<Rightarrow> Widget" where
  "setStyle style w = fold (\<lambda>stmt x. stmt x) (setStyle_statements style) w"

section \<open>Animations of a widget\<close>

definition log_event :: "emitted \<Rightarrow> Widget \<Rightarrow> Widget" where
  "log_event e w = w\<lparr>events := events w @ [e]\<rparr>"

definition remove_name :: "string \<Rightarrow> Widget \<Rightarrow> Widget" where
  \<comment> \<open>\<^verbatim>\<open>m_animations.remove(name)\<close>\<close>
  "remove_name nm w = w\<lparr>m_animations := filter (\<lambda>(k, i). k \<noteq> nm) (m_animations w)\<rparr>"

definition invoke_callback :: "Widget \<Rightarrow> Widget" where
  \<comment> \<open>\<^verbatim>\<open>if (m_animationCallback) m_animationCallback();\<close>\<close>
  "invoke_callback w = (if m_animationCallback w then log_event Call_animationCallback w else w)"

definition QWidget_hide :: "Widget \<Rightarrow> Widget" where
  "QWidget_hide w = w\<lparr>visible := False\<rparr>"

definition QWidget_show :: "Widget \<Rightarrow> Widget" where
  "QWidget_show w = w\<lparr>visible := True\<rparr>"

fun handler_body :: "handler \<Rightarrow> Widget \<Rightarrow> Widget" where
  \<comment> \<open>the lambdas connected to \<^verbatim>\<open>QPropertyAnimation::finished\<close>\<close>
  "handler_body H_none w = w"
| "handler_body H_fadeIn w =
     invoke_callback (log_event (Signal_animationFinished FadeIn) (remove_name ''fade'' w))"
| "handler_body H_fadeOut w =
     invoke_callback (log_event (Signal_animationFinished FadeOut)
       (remove_name ''fade'' (QWidget_hide w)))"
| "handler_body H_fadeTo w = remove_name ''fade'' w"
| "handler_body H_bounce w =
     log_event (Signal_animationFinished Bounce) (remove_name ''bounce'' w)"
| "handler_body H_shake w = log_event (Signal_animationFinished Shake) (remove_name ''shake'' w)"
| "handler_body H_scale w = log_event (Signal_animationFinished Scale) (remove_name ''scale'' w)"
| "handler_body H_move w = remove_name ''move'' w"
| "handler_body H_slideIn w =
     log_event (Signal_animationFinished SlideIn) (remove_name ''slide'' w)"
| "handler_body H_slideOut w =
     log_event (Signal_animationFinished SlideOut) (remove_name ''slide'' (QWidget_hide w))"

definition emit_finished :: "nat \<Rightarrow> Widget \<Rightarrow> Widget" where
  \<comment> \<open>animation \<open>i\<close> emits \<^verbatim>\<open>finished()\<close>: the connected lambda, if any, runs\<close>
  "emit_finished i w =
     (let h = a_onFinished (heap w ! i)
      in if h = H_none then w else handler_body h (log_event (Run_finished_handler i) w))"

definition totalDuration :: "QPropertyAnimation \<Rightarrow> int" where
  "totalDuration a =
     (let dura = a_duration a
      in if dura \<le> 0 then dura else if a_loopCount a < 0 then - 1 else dura * a_loopCount a)"

definition anim_stop :: "nat \<Rightarrow> Widget \<Rightarrow> Widget" where
  \<comment> \<open>\<^verbatim>\<open>QAbstractAnimation::stop()\<close>: \<^verbatim>\<open>finished()\<close> is emitted only when the animation has
      run to its end or loops without end\<close>
  "anim_stop i w =
     (let a = heap w ! i
      in if a_state a = Stopped then w
         else (let w1 = w\<lparr>heap := (heap w)[i := a\<lparr>a_state := Stopped\<rparr>]\<rparr>
               in if a_duration a = - 1 \<or> a_loopCount a < 0
                     \<or> a_currentTime a * (a_currentLoop a + 1) = a_duration a * a_loopCount a
                  then emit_finished i w1 else w1))"

definition setCurrentTime :: "nat \<Rightarrow> int \<Rightarrow> Widget \<Rightarrow> Widget" where
  \<comment> \<open>\<^verbatim>\<open>QAbstractAnimation::setCurrentTime(msecs)\<close>, direction forward\<close>
  "setCurrentTime i msecs0 w =
     (let a = heap w ! i;
          dura = a_duration a;
          totalDura = totalDuration a;
          msecs = (if totalDura \<noteq> - 1 then min totalDura (max msecs0 0) else max msecs0 0);
          loop = (if dura \<le> 0 then 0 else msecs div dura);
          a1 = (if loop = a_loopCount a
                then a\<lparr>a_totalCurrentTime := msecs, a_currentTime := max 0 dura,
                       a_currentLoop := max 0 (a_loopCount a - 1)\<rparr>
                else a\<lparr>a_totalCurrentTime := msecs,
                       a_currentTime := (if dura \<le> 0 then msecs else msecs mod dura),
                       a_currentLoop := loop\<rparr>);
          w1 = w\<lparr>heap := (heap w)[i := a1]\<rparr>
      in if msecs = totalDura then anim_stop i w1 else w1)"

definition anim_start :: "nat \<Rightarrow> Widget \<Rightarrow> Widget" where
  \<comment> \<open>\<^verbatim>\<open>QAbstractAnimation::start()\<close>\<close>
  "anim_start i w =
     (let a = heap w ! i
      in if a_state a = Running then w
         else setCurrentTime i 0
                (w\<lparr>heap := (heap w)[i := a\<lparr>a_state := Running, a_totalCurrentTime := 0,
                                           a_currentTime := 0, a_currentLoop := 0\<rparr>]\<rparr>))"

definition deleteLater :: "nat \<Rightarrow> Widget \<Rightarrow> Widget" where
  "deleteLater i w = w\<lparr>heap := (heap w)[i := (heap w ! i)\<lparr>a_deleteLater := True\<rparr>]\<rparr>"

definition stopAnimation :: "string \<Rightarrow> Widget \<Rightarrow> Widget" where
  \<comment> \<open>a registered \<^verbatim>\<open>QPointer\<close> is never null: an animation is deleted only by the
      \<^verbatim>\<open>deleteLater()\<close> calls here and in \<^verbatim>\<open>cleanupAnimations\<close>, next to the removal\<close>
  "stopAnimation nm w =
     (case map_of (m_animations w) nm of
        None \<Rightarrow> w
      | Some i \<Rightarrow> remove_name nm (deleteLater i (anim_stop i w)))"

definition cleanupAnimations :: "Widget \<Rightarrow> Widget" where
  "cleanupAnimations w =
     (fold (\<lambda>(nm, i) x. deleteLater i (anim_stop i x)) (m_animations w) w)\<lparr>m_animations := []\<rparr>"

definition createAnimation :: "string \<Rightarrow> int \<Rightarrow> QPropertyAnimation" where
  \<comment> \<open>\<^verbatim>\<open>setDuration\<close> ignores a negative duration; the default is 250 ms\<close>
  "createAnimation property duration =
     \<lparr>a_property = property, a_duration = (if duration < 0 then 250 else duration),
      a_loopCount = 1, a_state = Stopped, a_totalCurrentTime = 0, a_currentTime = 0,
      a_currentLoop = 0, a_onFinished = H_none, a_deleteLater = False\<rparr>"

definition animate :: "string \<Rightarrow> string \<Rightarrow> int \<Rightarrow> int \<Rightarrow> handler \<Rightarrow> Widget \<Rightarrow> Widget" where
  \<comment> \<open>what every animation function does after its guard: \<^verbatim>\<open>stopAnimation(name)\<close>, create,
      configure, connect, \<^verbatim>\<open>m_animations[name] = anim\<close>, \<^verbatim>\<open>anim->start()\<close>\<close>
  "animate nm property duration loopCount h w =
     (let w1 = stopAnimation nm w;
          i = length (heap w1);
          anim = (createAnimation property duration)\<lparr>a_loopCount := loopCount,
                    a_onFinished := h\<rparr>;
          w2 = w1\<lparr>heap := heap w1 @ [anim]\<rparr>;
          w3 = w2\<lparr>m_animations := (nm, i) # filter (\<lambda>(k, v). k \<noteq> nm) (m_animations w2)\<rparr>
      in anim_start i w3)"

definition fadeIn :: "int \<Rightarrow> Widget \<Rightarrow> Widget" where
  "fadeIn duration w =
     (if \<not> m_initialized w then w else animate ''fade'' ''windowOpacity'' duration 1 H_fadeIn w)"

definition fadeOut :: "int \<Rightarrow> Widget \<Rightarrow> Widget" where
  "fadeOut duration w =
     (if \<not> m_initialized w then w else animate ''fade'' ''windowOpacity'' duration 1 H_fadeOut w)"

definition fadeTo :: "double \<Rightarrow> int \<Rightarrow> Widget \<Rightarrow> Widget" where
  "fadeTo op duration w =
     (if \<not> m_initialized w then w else animate ''fade'' ''windowOpacity'' duration 1 H_fadeTo w)"

definition bounce :: "int \<Rightarrow> Widget \<Rightarrow> Widget" where
  "bounce duration w =
     (if \<not> m_initialized w then w else animate ''bounce'' ''geometry'' duration 1 H_bounce w)"

definition pulse :: "int \<Rightarrow> Widget \<Rightarrow> Widget" where
  "pulse duration w =
     (if \<not> m_initialized w then w
      else animate ''pulse'' ''windowOpacity'' duration (- 1) H_none w)"

definition shake :: "int \<Rightarrow> int \<Rightarrow> Widget \<Rightarrow> Widget" where
  "shake duration intensity w =
     (if \<not> m_initialized w then w else animate ''shake'' ''pos'' duration 1 H_shake w)"

definition scaleTo :: "double \<Rightarrow> int \<Rightarrow> Widget \<Rightarrow> Widget" where
  "scaleTo scale duration w =
     (if \<not> m_initialized w then w else animate ''scale'' ''geometry'' duration 1 H_scale w)"

definition moveTo :: "int \<Rightarrow> int \<Rightarrow> int \<Rightarrow> Widget \<Rightarrow> Widget" where
  "moveTo x y duration w =
     (if \<not> m_initialized w then w else animate ''move'' ''pos'' duration 1 H_move w)"

definition slideIn :: "Position \<Rightarrow> int \<Rightarrow> Widget \<Rightarrow> Widget" where
  "slideIn from duration w =
     (if \<not> m_initialized w then w
      else animate ''slide'' ''pos'' duration 1 H_slideIn (QWidget_show w))"

definition slideOut :: "Position \<Rightarrow> int \<Rightarrow> Widget \<Rightarrow> Widget" where
  "slideOut to duration w =
     (if \<not> m_initialized w then w else animate ''slide'' ''pos'' duration 1 H_slideOut w)"

definition stopAnimations :: "Widget \<Rightarrow> Widget" where
  "stopAnimations w = cleanupAnimations w"

definition Widget_show :: "Widget \<Rightarrow> Widget" where
  "Widget_show w =
     (let w1 = QWidget_show w;
          w2 = (if m_initialized w1 then fadeIn 200 w1 else w1)
      in log_event Signal_shown w2)"

definition Widget_hide :: "Widget \<Rightarrow> Widget" where
  "Widget_hide w =
     (let w1 = (if m_initialized w then fadeOut 200 w else QWidget_hide w)
      in log_event Signal_hidden w1)"

text \<open>
  The animation driver of the event loop advances a running animation by calling
  \<^verbatim>\<open>setCurrentTime\<close> with the time elapsed since its start.
\<close>

definition tick :: "nat \<times> int \<Rightarrow> Widget \<Rightarrow> Widget" where
  "tick e w =
     (case e of (i, msecs) \<Rightarrow>
        if i < length (heap w) \<and> a_state (heap w ! i) = Running then setCurrentTime i msecs w
        else w)"

datatype request =
  R_fadeIn int | R_fadeOut int | R_fadeTo double int | R_bounce int | R_pulse int
  | R_shake int int | R_scaleTo double int | R_moveTo int int int | R_slideIn Position int
  | R_slideOut Position int

fun perform :: "request \<Rightarrow> Widget \<Rightarrow> Widget" where
  "perform (R_fadeIn d) w = fadeIn d w"
| "perform (R_fadeOut d) w = fadeOut d w"
| "perform (R_fadeTo op d) w = fadeTo op d w"
| "perform (R_bounce d) w = bounce d w"
| "perform (R_pulse d) w = pulse d w"
| "perform (R_shake d intensity) w = shake d intensity w"
| "perform (R_scaleTo scale d) w = scaleTo scale d w"
| "perform (R_moveTo x y d) w = moveTo x y d w"
| "perform (R_slideIn from d) w = slideIn from d w"
| "perform (R_slideOut to d) w = slideOut to d w"



definition handler_runs :: "nat \<Rightarrow> Widget \<Rightarrow> nat" where
  \<comment> \<open>how often the finished-handler of animation \<open>i\<close> has run\<close>
  "handler_runs i w = length (filter (\<lambda>e. e = Run_finished_handler i) (events w))"

section \<open>XML parser (XMLParser.cpp)\<close>

definition toDouble :: "string \<Rightarrow> double" where
  \<comment> \<open>\<^verbatim>\<open>QString::toDouble()\<close>: the nearest double of a decimal literal, an infinity when
      it overflows, 0.0 when the text is no number\<close>
  "toDouble str =
     (let t = toLower (trimmed str)
      in if t = ''nan'' then NaN
         else if t = ''inf'' \<or> t = ''+inf'' then PosInf
         else if t = ''-inf'' then NegInf
         else (case parse_decimal str of
                 None \<Rightarrow> Finite 0
               | Some (neg, M, k) \<Rightarrow>
                   (case to_binary64 (if k \<ge> 0 then M * 10 ^ nat k else M)
                                     (if k \<ge> 0 then 1 else 10 ^ nat (- k)) of
                      None \<Rightarrow> (if neg then NegInf else PosInf)
                    | Some (m, e) \<Rightarrow>
                        Finite ((if neg then - 1 else 1) * of_int m * 2 powi e))))"

datatype QDomNode =
  Element string "(string \<times> string) list" "QDomNode list"
  | CharacterData string

fun isElement :: "QDomNode \<Rightarrow> bool" where
  "isElement (Element t as cs) = True"
| "isElement (CharacterData s) = False"

fun tagName :: "QDomNode \<Rightarrow> string" where
  "tagName (Element t as cs) = t"
| "tagName (CharacterData s) = []"

fun attributes :: "QDomNode \<Rightarrow> (string \<times> string) list" where
  "attributes (Element t as cs) = as"
| "attributes (CharacterData s) = []"

fun childNodes :: "QDomNode \<Rightarrow> QDomNode list" where
  "childNodes (Element t as cs) = cs"
| "childNodes (CharacterData s) = []"

definition hasAttribute :: "QDomNode \<Rightarrow> string \<Rightarrow> bool" where
  "hasAttribute e nm \<longleftrightarrow> map_of (attributes e) nm \<noteq> None"

definition attribute_or :: "QDomNode \<Rightarrow> string \<Rightarrow> string \<Rightarrow> string" where
  \<comment> \<open>\<^verbatim>\<open>elem.attribute(name, defValue)\<close>\<close>
  "attribute_or e nm d = (case map_of (attributes e) nm of Some v \<Rightarrow> v | None \<Rightarrow> d)"

definition attribute :: "QDomNode \<Rightarrow> string \<Rightarrow> string" where
  "attribute e nm = attribute_or e nm []"

definition parseShape :: "string \<Rightarrow> Shape" where
  "parseShape v0 =
     (let v = toLower v0
      in if v = ''rectangle'' \<or> v = ''rect'' then Shape_Rectangle
         else if v = ''rounded'' \<or> v = ''roundedrect'' then Shape_RoundedRect
         else if v = ''circle'' then Shape_Circle
         else if v = ''ellipse'' \<or> v = ''oval'' then Shape_Ellipse
         else if v = ''square'' then Shape_Square
         else Shape_Rectangle)"

definition border_attribute :: "string \<Rightarrow> Widget \<Rightarrow> Widget" where
  \<comment> \<open>the \<^verbatim>\<open>border\<close> attribute: \<^verbatim>\<open>"2px #ff0000"\<close> or a colour alone\<close>
  "border_attribute bd w =
     (let parts = split CHR '' '' bd
      in if length parts \<ge> 2
         then setBorder (Color_parse (parts ! 1)) (toInt (remove_str ''px'' (parts ! 0))) w
         else setBorder (Color_parse bd) 1 w)"

definition shadow_attribute :: "string \<Rightarrow> Widget \<Rightarrow> Widget" where
  \<comment> \<open>the \<^verbatim>\<open>shadow\<close> attribute: \<^verbatim>\<open>"color blur offsetX offsetY"\<close>\<close>
  "shadow_attribute sh w =
     (let parts = split CHR '' '' sh
      in if length parts \<ge> 4
         then setShadow (Color_parse (parts ! 0)) (toInt (parts ! 1)) (toInt (parts ! 2))
                (toInt (parts ! 3)) w
         else w)"

definition property_statements :: "QDomNode \<Rightarrow> (Widget \<Rightarrow> Widget) list" where
  \<comment> \<open>the statements of \<^verbatim>\<open>parseWidgetProperties\<close> for the attributes that reach a
      modelled member, in source order; the position, glow, window-flag, spacing and class
      attributes act on the window system only\<close>
  "property_statements e =
     [ assign_if (hasAttribute e ''background'') (setBackground (attribute e ''background'')),
       assign_if (hasAttribute e ''bg'') (setBackground (attribute e ''bg'')),
       assign_if (hasAttribute e ''shape'') (setShape (parseShape (attribute e ''shape''))),
       assign_if (hasAttribute e ''rounded'') (setRounded (toInt (attribute e ''rounded''))),
       assign_if (hasAttribute e ''radius'') (setRounded (toInt (attribute e ''radius''))),
       assign_if (hasAttribute e ''border'') (border_attribute (attribute e ''border'')),
       assign_if (hasAttribute e ''border-color'' \<and> hasAttribute e ''border-width'')
         (setBorder (Color_parse (attribute e ''border-color''))
            (toInt (attribute e ''border-width''))),
       assign_if (hasAttribute e ''opacity'') (setOpacity (toDouble (attribute e ''opacity''))),
       assign_if (hasAttribute e ''glass'') (setGlass (attribute e ''glass'' = ''true'')),
       assign_if (hasAttribute e ''blur'')
         (setBlur BlurMode_Glass (toDouble (attribute e ''blur''))),
       assign_if (hasAttribute e ''shadow'') (shadow_attribute (attribute e ''shadow'')),
       assign_if (hasAttribute e ''draggable'')
         (setDraggable (attribute e ''draggable'' = ''true'')),
       assign_if (hasAttribute e ''margin'') (setMargin (toInt (attribute e ''margin''))),
       assign_if (hasAttribute e ''padding'') (setMargin (toInt (attribute e ''padding'')))
     ]"

definition parseWidgetProperties :: "QDomNode \<Rightarrow> Widget \<Rightarrow> Widget" where
  "parseWidgetProperties e w = fold (\<lambda>stmt x. stmt x) (property_statements e) w"

definition parseWidget :: "QDomNode \<Rightarrow> Widget" where
  \<comment> \<open>\<^verbatim>\<open>Widget::create\<close> never returns null; the child widgets go to the layout\<close>
  "parseWidget e =
     parseWidgetProperties e
       (Widget_new (toInt (attribute_or e ''width'' ''300''))
          (toInt (attribute_or e ''height'' ''200'')))"

datatype signal = parseError string int int | widgetCreated Widget

record XMLParser =
  m_lastError :: string
  m_basePath :: string
  signals :: "signal list"

definition XMLParser_new :: XMLParser where
  "XMLParser_new = \<lparr>m_lastError = [], m_basePath = [], signals = []\<rparr>"

definition emit :: "signal \<Rightarrow> XMLParser \<Rightarrow> XMLParser" where
  "emit s p = p\<lparr>signals := signals p @ [s]\<rparr>"

definition hasError :: "XMLParser \<Rightarrow> bool" where
  "hasError p \<longleftrightarrow> m_lastError p \<noteq> []"

text \<open>
  \<^verbatim>\<open>QDomDocument::setContent\<close> is the platform's XML reader. Its outcome is an input of
  the model: the document element of a well-formed text, or the message, line and
  column it reports for a malformed one.
\<close>

datatype setContent_result =
  Malformed string int int
  | WellFormed QDomNode

datatype open_result =
  CannotOpen
  | Opened setContent_result

definition xml_error_text :: "string \<Rightarrow> int \<Rightarrow> int \<Rightarrow> string" where
  \<comment> \<open>\<^verbatim>\<open>QString("XML parse error at line %1, column %2: %3").arg(..).arg(..).arg(..)\<close>\<close>
  "xml_error_text errorMsg errorLine errorColumn =
     ''XML parse error at line '' @ number errorLine @ '', column '' @ number errorColumn
       @ '': '' @ errorMsg"

fun widget_children :: "QDomNode list \<Rightarrow> Widget list" where
  \<comment> \<open>the loop over the children of a \<^verbatim>\<open>widgets\<close> or \<^verbatim>\<open>milk\<close> document element\<close>
  "widget_children [] = []"
| "widget_children (child # rest) =
     (if isElement child \<and> tagName child = ''widget''
      then parseWidget child # widget_children rest
      else widget_children rest)"

definition parseString :: "setContent_result \<Rightarrow> XMLParser \<Rightarrow> Widget list \<times> XMLParser" where
  "parseString content p0 =
     (let p = p0\<lparr>m_lastError := []\<rparr>
      in case content of
           Malformed errorMsg errorLine errorColumn \<Rightarrow>
             (let p1 = p\<lparr>m_lastError := xml_error_text errorMsg errorLine errorColumn\<rparr>
              in ([], emit (parseError (m_lastError p1) errorLine errorColumn) p1))
         | WellFormed docElem \<Rightarrow>
             if tagName docElem = ''widgets'' \<or> tagName docElem = ''milk''
             then (widget_children (childNodes docElem), p)
             else if tagName docElem = ''widget'' then ([parseWidget docElem], p)
             else ([], p))"

definition parseFile ::
  "string \<Rightarrow> string \<Rightarrow> open_result \<Rightarrow> XMLParser \<Rightarrow> Widget list \<times> XMLParser" where
  \<comment> \<open>\<open>absolutePath\<close> is what \<^verbatim>\<open>QFileInfo(path).absolutePath()\<close> returns\<close>
  "parseFile path absolutePath file p0 =
     (let p = p0\<lparr>m_lastError := []\<rparr>
      in case file of
           CannotOpen \<Rightarrow>
             (let p1 = p\<lparr>m_lastError := ''Cannot open file: '' @ path\<rparr>
              in ([], emit (parseError (m_lastError p1) 0 0) p1))
         | Opened content \<Rightarrow>
             (let p2 = p\<lparr>m_basePath := absolutePath\<rparr>
              in case content of
                   Malformed errorMsg errorLine errorColumn \<Rightarrow>
                     (let p3 = p2\<lparr>m_lastError := xml_error_text errorMsg errorLine errorColumn\<rparr>
                      in ([], emit (parseError (m_lastError p3) errorLine errorColumn) p3))
                 | WellFormed docElem \<Rightarrow>
                     if tagName docElem = ''widgets'' \<or> tagName docElem = ''milk''
                     then (let ws = widget_children (childNodes docElem)
                           in (ws, fold (\<lambda>w. emit (widgetCreated w)) ws p2))
                     else if tagName docElem = ''widget''
                     then ([parseWidget docElem], emit (widgetCreated (parseWidget docElem)) p2)
                     else ([], p2)))"

section \<open>Sequences of operations on a widget\<close>

datatype widget_op =
  Op_setOpacity double
  | Op_setStyle StyleSheet
  | Op_setBackground string
  | Op_setBackgroundColor QColor
  | Op_setShape Shape
  | Op_setRounded int
  | Op_setSize int int
  | Op_setBlur BlurMode double
  | Op_setGlass bool
  | Op_setShadow QColor int int int
  | Op_removeShadow
  | Op_setBorder QColor int
  | Op_removeBorder
  | Op_setDraggable bool
  | Op_setMargin int
  | Op_setAnimationCallback bool
  | Op_animate request
  | Op_stopAnimations
  | Op_show
  | Op_hide
  | Op_tick nat int

fun apply_op :: "widget_op \<Rightarrow> Widget \<Rightarrow> Widget" where
  "apply_op (Op_setOpacity d) w = setOpacity d w"
| "apply_op (Op_setStyle s) w = setStyle s w"
| "apply_op (Op_setBackground c) w = setBackground c w"
| "apply_op (Op_setBackgroundColor c) w = setBackgroundColor c w"
| "apply_op (Op_setShape s) w = setShape s w"
| "apply_op (Op_setRounded r) w = setRounded r w"
| "apply_op (Op_setSize x y) w = setSize x y w"
| "apply_op (Op_setBlur m r) w = setBlur m r w"
| "apply_op (Op_setGlass g) w = setGlass g w"
| "apply_op (Op_setShadow c b x y) w = setShadow c b x y w"
| "apply_op Op_removeShadow w = removeShadow w"
| "apply_op (Op_setBorder c n) w = setBorder c n w"
| "apply_op Op_removeBorder w = removeBorder w"
| "apply_op (Op_setDraggable d) w = setDraggable d w"
| "apply_op (Op_setMargin n) w = setMargin n w"
| "apply_op (Op_setAnimationCallback c) w = setAnimationCallback c w"
| "apply_op (Op_animate r) w = perform r w"
| "apply_op Op_stopAnimations w = stopAnimations w"
| "apply_op Op_show w = Widget_show w"
| "apply_op Op_hide w = Widget_hide w"
| "apply_op (Op_tick i msecs) w = tick (i, msecs) w"

definition in_unit_interval :: "double \<Rightarrow> bool" where
  "in_unit_interval d = (case d of Finite x \<Rightarrow> 0 \<le> x \<and> x \<le> 1 | _ \<Rightarrow> False)"

definition diagnostics :: "XMLParser \<Rightarrow> XMLParser \<Rightarrow> signal list" where
  \<comment> \<open>the signals a call has added\<close>
  "diagnostics before after = drop (length (signals before)) (signals after)"


definition keeps_opacity :: "(Widget \<Rightarrow> Widget) \<Rightarrow> bool" where
  \<comment> \<open>a step that leaves the stored opacity within [0, 1] when it was\<close>
  "keeps_opacity f \<longleftrightarrow>
     (\<forall>w. in_unit_interval (m_opacity w) \<longrightarrow> in_unit_interval (m_opacity (f w)))"

section \<open>Replacing a running animation\<close>






definition endless :: "nat \<Rightarrow> Widget \<Rightarrow> bool" where
  \<comment> \<open>animation \<open>j\<close> loops without end, has no handler connected and runs\<close>
  "endless j w \<longleftrightarrow>
     j < length (heap w) \<and> a_state (heap w ! j) = Running \<and> a_loopCount (heap w ! j) = - 1
     \<and> 0 < a_duration (heap w ! j) \<and> a_onFinished (heap w ! j) = H_none"

subsection \<open>Sample runs\<close>





subsection \<open>Two sample sheets\<close>

definition sheet_small :: StyleSheet where
  "sheet_small = StyleSheet_default\<lparr>fontSize := 10\<rparr>"

definition sheet_large :: StyleSheet where
  "sheet_large = StyleSheet_default\<lparr>fontSize := 14\<rparr>"

section \<open>Properties of merge\<close>

text \<open>
  Reading one member of the result through one guarded assignment: an assignment to
  another member leaves it alone, an assignment to the member itself decides it.
\<close>

lemma backgroundColor_assign_other:
  "(\<And>r. backgroundColor (u r) = backgroundColor r) \<Longrightarrow> backgroundColor (assign_if c u r) = backgroundColor r"
  by (simp add: assign_if_def)

lemma backgroundColor_assign_self:
  "backgroundColor (assign_if c (\<lambda>r. r\<lparr>backgroundColor := v\<rparr>) r) = (if c then v else backgroundColor r)"
  by (simp add: assign_if_def)

lemma backgroundGradient_assign_other:
  "(\<And>r. backgroundGradient (u r) = backgroundGradient r) \<Longrightarrow> backgroundGradient (assign_if c u r) = backgroundGradient r"
  by (simp add: assign_if_def)

lemma backgroundGradient_assign_self:
  "backgroundGradient (assign_if c (\<lambda>r. r\<lparr>backgroundGradient := v\<rparr>) r) = (if c then v else backgroundGradient r)"
  by (simp add: assign_if_def)

lemma backgroundImage_assign_other:
  "(\<And>r. backgroundImage (u r) = backgroundImage r) \<Longrightarrow> backgroundImage (assign_if c u r) = backgroundImage r"
  by (simp add: assign_if_def)

lemma backgroundImage_assign_self:
  "backgroundImage (assign_if c (\<lambda>r. r\<lparr>backgroundImage := v\<rparr>) r) = (if c then v else backgroundImage r)"
  by (simp add: assign_if_def)

lemma textColor_assign_other:
  "(\<And>r. textColor (u r) = textColor r) \<Longrightarrow> textColor (assign_if c u r) = textColor r"
  by (simp add: assign_if_def)

lemma textColor_assign_self:
  "textColor (assign_if c (\<lambda>r. r\<lparr>textColor := v\<rparr>) r) = (if c then v else textColor r)"
  by (simp add: assign_if_def)

lemma fontFamily_assign_other:
  "(\<And>r. fontFamily (u r) = fontFamily r) \<Longrightarrow> fontFamily (assign_if c u r) = fontFamily r"
  by (simp add: assign_if_def)

lemma fontFamily_assign_self:
  "fontFamily (assign_if c (\<lambda>r. r\<lparr>fontFamily := v\<rparr>) r) = (if c then v else fontFamily r)"
  by (simp add: assign_if_def)

lemma fontSize_assign_other:
  "(\<And>r. fontSize (u r) = fontSize r) \<Longrightarrow> fontSize (assign_if c u r) = fontSize r"
  by (simp add: assign_if_def)

lemma fontSize_assign_self:
  "fontSize (assign_if c (\<lambda>r. r\<lparr>fontSize := v\<rparr>) r) = (if c then v else fontSize r)"
  by (simp add: assign_if_def)

lemma fontBold_assign_other:
  "(\<And>r. fontBold (u r) = fontBold r) \<Longrightarrow> fontBold (assign_if c u r) = fontBold r"
  by (simp add: assign_if_def)

lemma fontBold_assign_self:
  "fontBold (assign_if c (\<lambda>r. r\<lparr>fontBold := v\<rparr>) r) = (if c then v else fontBold r)"
  by (simp add: assign_if_def)

lemma fontItalic_assign_other:
  "(\<And>r. fontItalic (u r) = fontItalic r) \<Longrightarrow> fontItalic (assign_if c u r) = fontItalic r"
  by (simp add: assign_if_def)

lemma fontItalic_assign_self:
  "fontItalic (assign_if c (\<lambda>r. r\<lparr>fontItalic := v\<rparr>) r) = (if c then v else fontItalic r)"
  by (simp add: assign_if_def)

lemma border_assign_other:
  "(\<And>r. border (u r) = border r) \<Longrightarrow> border (assign_if c u r) = border r"
  by (simp add: assign_if_def)

lemma border_assign_self:
  "border (assign_if c (\<lambda>r. r\<lparr>border := v\<rparr>) r) = (if c then v else border r)"
  by (simp add: assign_if_def)

lemma shadow_assign_other:
  "(\<And>r. shadow (u r) = shadow r) \<Longrightarrow> shadow (assign_if c u r) = shadow r"
  by (simp add: assign_if_def)

lemma shadow_assign_self:
  "shadow (assign_if c (\<lambda>r. r\<lparr>shadow := v\<rparr>) r) = (if c then v else shadow r)"
  by (simp add: assign_if_def)

lemma margin_assign_other:
  "(\<And>r. margin (u r) = margin r) \<Longrightarrow> margin (assign_if c u r) = margin r"
  by (simp add: assign_if_def)

lemma margin_assign_self:
  "margin (assign_if c (\<lambda>r. r\<lparr>margin := v\<rparr>) r) = (if c then v else margin r)"
  by (simp add: assign_if_def)

lemma padding_assign_other:
  "(\<And>r. padding (u r) = padding r) \<Longrightarrow> padding (assign_if c u r) = padding r"
  by (simp add: assign_if_def)

lemma padding_assign_self:
  "padding (assign_if c (\<lambda>r. r\<lparr>padding := v\<rparr>) r) = (if c then v else padding r)"
  by (simp add: assign_if_def)

lemma cornerRadius_assign_other:
  "(\<And>r. cornerRadius (u r) = cornerRadius r) \<Longrightarrow> cornerRadius (assign_if c u r) = cornerRadius r"
  by (simp add: assign_if_def)

lemma cornerRadius_assign_self:
  "cornerRadius (assign_if c (\<lambda>r. r\<lparr>cornerRadius := v\<rparr>) r) = (if c then v else cornerRadius r)"
  by (simp add: assign_if_def)

lemma opacity_assign_other:
  "(\<And>r. opacity (u r) = opacity r) \<Longrightarrow> opacity (assign_if c u r) = opacity r"
  by (simp add: assign_if_def)

lemma opacity_assign_self:
  "opacity (assign_if c (\<lambda>r. r\<lparr>opacity := v\<rparr>) r) = (if c then v else opacity r)"
  by (simp add: assign_if_def)

lemma blur_assign_other:
  "(\<And>r. blur (u r) = blur r) \<Longrightarrow> blur (assign_if c u r) = blur r"
  by (simp add: assign_if_def)

lemma blur_assign_self:
  "blur (assign_if c (\<lambda>r. r\<lparr>blur := v, blurRadius := w\<rparr>) r) = (if c then v else blur r)"
  by (simp add: assign_if_def)

lemma blurRadius_assign_other:
  "(\<And>r. blurRadius (u r) = blurRadius r) \<Longrightarrow> blurRadius (assign_if c u r) = blurRadius r"
  by (simp add: assign_if_def)

lemma blurRadius_assign_self:
  "blurRadius (assign_if c (\<lambda>r. r\<lparr>blur := v, blurRadius := w\<rparr>) r)
     = (if c then w else blurRadius r)"
  by (simp add: assign_if_def)

text \<open>Each member of the merged sheet, read off the fifteen assignments.\<close>

lemma merge_backgroundColor:
  "backgroundColor (merge a b) = (if isValid (backgroundColor b) then backgroundColor b else backgroundColor a)"
  by (simp add: merge_def backgroundColor_assign_other backgroundColor_assign_self)

lemma merge_backgroundGradient:
  "backgroundGradient (merge a b) = (if Gradient_isValid (backgroundGradient b) then backgroundGradient b else backgroundGradient a)"
  by (simp add: merge_def backgroundGradient_assign_other backgroundGradient_assign_self)

lemma merge_backgroundImage:
  "backgroundImage (merge a b) = (if backgroundImage b \<noteq> [] then backgroundImage b else backgroundImage a)"
  by (simp add: merge_def backgroundImage_assign_other backgroundImage_assign_self)

lemma merge_textColor:
  "textColor (merge a b) = (if isValid (textColor b) then textColor b else textColor a)"
  by (simp add: merge_def textColor_assign_other textColor_assign_self)

lemma merge_fontFamily:
  "fontFamily (merge a b) = (if fontFamily b \<noteq> [] then fontFamily b else fontFamily a)"
  by (simp add: merge_def fontFamily_assign_other fontFamily_assign_self)

lemma merge_fontSize:
  "fontSize (merge a b) = (if fontSize b > 0 then fontSize b else fontSize a)"
  by (simp add: merge_def fontSize_assign_other fontSize_assign_self)

lemma merge_fontBold:
  "fontBold (merge a b) = (if fontBold b then fontBold b else fontBold a)"
  by (simp add: merge_def fontBold_assign_other fontBold_assign_self)

lemma merge_fontItalic:
  "fontItalic (merge a b) = (if fontItalic b then fontItalic b else fontItalic a)"
  by (simp add: merge_def fontItalic_assign_other fontItalic_assign_self)

lemma merge_border:
  "border (merge a b) = (if b_width (border b) > 0 then border b else border a)"
  by (simp add: merge_def border_assign_other border_assign_self)

lemma merge_shadow:
  "shadow (merge a b) = (if sh_enabled (shadow b) then shadow b else shadow a)"
  by (simp add: merge_def shadow_assign_other shadow_assign_self)

lemma merge_margin:
  "margin (merge a b) = (if any_side_positive (margin b) then margin b else margin a)"
  by (simp add: merge_def margin_assign_other margin_assign_self)

lemma merge_padding:
  "padding (merge a b) = (if any_side_positive (padding b) then padding b else padding a)"
  by (simp add: merge_def padding_assign_other padding_assign_self)

lemma merge_cornerRadius:
  "cornerRadius (merge a b) = (if cornerRadius b > 0 then cornerRadius b else cornerRadius a)"
  by (simp add: merge_def cornerRadius_assign_other cornerRadius_assign_self)

lemma merge_opacity:
  "opacity (merge a b) = (if dless (opacity b) (Finite 1) then opacity b else opacity a)"
  by (simp add: merge_def opacity_assign_other opacity_assign_self)

lemma merge_blur:
  "blur (merge a b) = (if blur b \<noteq> BlurMode_None then blur b else blur a)"
  by (simp add: merge_def blur_assign_other blur_assign_self)

lemma merge_blurRadius:
  "blurRadius (merge a b) = (if blur b \<noteq> BlurMode_None then blurRadius b else blurRadius a)"
  by (simp add: merge_def blurRadius_assign_other blurRadius_assign_self)

lemmas merge_fields =
  merge_backgroundColor merge_backgroundGradient merge_backgroundImage merge_textColor
  merge_fontFamily merge_fontSize merge_fontBold merge_fontItalic
  merge_border merge_shadow merge_margin merge_padding
  merge_cornerRadius merge_opacity merge_blur merge_blurRadius

lemma merge_same_field:
  "same_field f (merge base ov) (if is_set f ov then ov else base)"
  by (cases f) (simp_all add: merge_fields)

lemma same_field_sym: "same_field f s t \<Longrightarrow> same_field f t s"
  by (cases f) simp_all

lemma same_field_trans: "same_field f s t \<Longrightarrow> same_field f t u \<Longrightarrow> same_field f s u"
  by (cases f) simp_all

text \<open>
  C1. \<^verbatim>\<open>merge(base, override)\<close> is defined field by field: a field that is set in
  the override (valid colour, non-empty string, positive size, enabled flag, opacity
  below 1.0, blur other than None) takes the override's value, a field that is unset in
  the override keeps the base's value; so two sheets that both set one field to
  different values do not merge to the same sheet in the two orders.
\<close>

theorem merge_field_by_field:
  "(is_set f ov \<longrightarrow> same_field f (merge base ov) ov)
   \<and> (\<not> is_set f ov \<longrightarrow> same_field f (merge base ov) base)
   \<and> (is_set f A \<and> is_set f B \<and> \<not> same_field f A B \<longrightarrow> merge A B \<noteq> merge B A)"
proof (intro conjI impI)
  assume "is_set f ov"
  then show "same_field f (merge base ov) ov"
    using merge_same_field [of f base ov] by simp
next
  assume "\<not> is_set f ov"
  then show "same_field f (merge base ov) base"
    using merge_same_field [of f base ov] by simp
next
  assume h: "is_set f A \<and> is_set f B \<and> \<not> same_field f A B"
  show "merge A B \<noteq> merge B A"
  proof
    assume eq: "merge A B = merge B A"
    have ab: "same_field f (merge A B) B"
      using h merge_same_field [of f A B] by simp
    have ba: "same_field f (merge B A) A"
      using h merge_same_field [of f B A] by simp
    from ba eq have "same_field f (merge A B) A" by simp
    then have "same_field f A (merge A B)" by (rule same_field_sym)
    then have "same_field f A B" using ab by (rule same_field_trans)
    with h show False by simp
  qed
qed

theorem merge_field_by_field_witness:
  "is_set F_fontSize sheet_large
   \<and> same_field F_fontSize (merge sheet_small sheet_large) sheet_large
   \<and> \<not> is_set F_textColor sheet_large
   \<and> same_field F_textColor (merge sheet_small sheet_large) sheet_small
   \<and> is_set F_fontSize sheet_small \<and> \<not> same_field F_fontSize sheet_small sheet_large
   \<and> merge sheet_small sheet_large \<noteq> merge sheet_large sheet_small"
proof -
  have s1: "is_set F_fontSize sheet_large" and s2: "is_set F_fontSize sheet_small"
    and s3: "\<not> same_field F_fontSize sheet_small sheet_large"
    and s4: "\<not> is_set F_textColor sheet_large"
    by (simp_all add: sheet_small_def sheet_large_def StyleSheet_default_def isValid_def
        QColor_default_def)
  show ?thesis
    using s1 s2 s3 s4
      merge_field_by_field [of F_fontSize sheet_large sheet_small sheet_small sheet_large]
      merge_field_by_field [of F_textColor sheet_large sheet_small sheet_small sheet_large]
    by simp
qed

section \<open>The freshly constructed StyleSheet\<close>

text \<open>
  C3, as stated: a freshly constructed StyleSheet has every field in the unset state.
  The member initialiser \<^verbatim>\<open>int fontSize = 12\<close> puts the font size in the state
  that \<^verbatim>\<open>merge\<close> and \<^verbatim>\<open>toCSS\<close> test as set (\<^verbatim>\<open>fontSize > 0\<close>).
\<close>

theorem default_fontSize_is_set:
  "fontSize StyleSheet_default = 12 \<and> is_set F_fontSize StyleSheet_default"
  by (simp add: StyleSheet_default_def)

text \<open>
  C3, amended: in a freshly constructed StyleSheet every field except the font size is
  in the unset state (invalid colours and gradient, empty strings, flags off, border
  width, margins, paddings and corner radius zero, opacity 1.0, blur None); the font
  size is 12, which is set.
\<close>

theorem default_unset_except_fontSize:
  "is_set f StyleSheet_default \<longleftrightarrow> f = F_fontSize"
  by (cases f)
    (simp_all add: StyleSheet_default_def isValid_def QColor_default_def Gradient_isValid_def
      Gradient_default_def Border_default_def Shadow_default_def any_side_positive_def
      Margin_default_def)

section \<open>Border and shadow shorthands\<close>










section \<open>Facts about the string operations\<close>



















lemma split_nonempty: "split sep s \<noteq> []"
  by (induction s) (auto split: list.splits)




section \<open>Parsing the canonical colour texts\<close>




lemma channel_high_byte: "0 \<le> v \<Longrightarrow> v \<le> 255 \<Longrightarrow> v * 257 div 256 = (v::int)"
  by arith



























section \<open>Round trips through the formatters\<close>




section \<open>The alpha of an \<^verbatim>\<open>rgba(\<close> string\<close>

lemma startsWith_rgba_not_rgb: "startsWith s ''rgba('' \<Longrightarrow> \<not> startsWith s ''rgb(''"
proof
  assume a: "startsWith s ''rgba(''" and b: "startsWith s ''rgb(''"
  from a have "s = ''rgba('' @ drop (length ''rgba('') s"
    unfolding startsWith_def by (metis append_take_drop_id)
  then obtain x where "s = ''rgba('' @ x" ..
  with b show False by (simp add: startsWith_def)
qed

lemma alpha_QColor_rgba:
  "isValid (QColor_rgba r g b a) \<Longrightarrow> alpha (QColor_rgba r g b a) = a"
  by (simp add: isValid_def QColor_rgba_def alpha_def isRgbaValid_def channel_high_byte
      split: if_splits)

text \<open>
  C6. For every \<^verbatim>\<open>rgba(r,g,b,a)\<close> string that \<^verbatim>\<open>Color::parse\<close> accepts, the alpha of
  the colour is decided by the decimal point in the alpha token: with a decimal point
  the token is read as a \<^verbatim>\<open>double\<close>, multiplied by 255 and truncated; without one it
  is read as an integer. In particular the alpha token \<^verbatim>\<open>1\<close> gives alpha 1 of 255, not
  full opacity, while \<^verbatim>\<open>1.0\<close> gives 255.
\<close>

theorem rgba_alpha_by_decimal_point:
  "(parse_rgba (toLower (trimmed str)) = Some c \<and> isValid c \<longrightarrow>
      Color_parse str = c
      \<and> alpha c = (if CHR ''.'' \<in> set (rgba_alpha_token str)
                   then times255_toInt (rgba_alpha_token str)
                   else toInt (rgba_alpha_token str)))
   \<and> alpha (Color_parse ''rgba(0,0,0,1)'') = 1
   \<and> alpha (Color_parse ''rgba(0,0,0,1.0)'') = 255"
proof (intro conjI impI)
  assume h: "parse_rgba (toLower (trimmed str)) = Some c \<and> isValid c"
  let ?s = "toLower (trimmed str)"
  from h have st: "startsWith ?s ''rgba(''"
    by (simp add: parse_rgba_def split: if_splits)
  then have "parse_rgb ?s = None"
    using startsWith_rgba_not_rgb [of ?s] by (simp add: parse_rgb_def)
  with h show "Color_parse str = c"
    by (simp add: Color_parse_def)
  from h st obtain r g b where
    c: "c = QColor_rgba r g b
          (if CHR ''.'' \<in> set (rgba_alpha_token str) then times255_toInt (rgba_alpha_token str)
           else toInt (rgba_alpha_token str))"
    by (auto simp: parse_rgba_def rgba_alpha_token_def Let_def split: if_splits)
  from h show "alpha c = (if CHR ''.'' \<in> set (rgba_alpha_token str)
      then times255_toInt (rgba_alpha_token str) else toInt (rgba_alpha_token str))"
    unfolding c by (rule alpha_QColor_rgba [OF conjunct2])
next
  show "alpha (Color_parse ''rgba(0,0,0,1)'') = 1"
    by code_simp
next
  show "alpha (Color_parse ''rgba(0,0,0,1.0)'') = 255"
    by code_simp
qed

theorem rgba_alpha_by_decimal_point_witness:
  "parse_rgba (toLower (trimmed ''RGBA(10, 20, 30, 0.5)'')) = Some (QColor_rgba 10 20 30 127)
   \<and> isValid (QColor_rgba 10 20 30 127)
   \<and> Color_parse ''RGBA(10, 20, 30, 0.5)'' = QColor_rgba 10 20 30 127
   \<and> rgba_alpha_token ''RGBA(10, 20, 30, 0.5)'' = ''0.5''
   \<and> alpha (QColor_rgba 10 20 30 127) = times255_toInt ''0.5''"
proof -
  have p: "parse_rgba (toLower (trimmed ''RGBA(10, 20, 30, 0.5)'')) = Some (QColor_rgba 10 20 30 127)"
    and v: "isValid (QColor_rgba 10 20 30 127)"
    and t: "rgba_alpha_token ''RGBA(10, 20, 30, 0.5)'' = ''0.5''"
    by code_simp+
  from rgba_alpha_by_decimal_point [of "''RGBA(10, 20, 30, 0.5)''" "QColor_rgba 10 20 30 127"] p v
  have "Color_parse ''RGBA(10, 20, 30, 0.5)'' = QColor_rgba 10 20 30 127
      \<and> alpha (QColor_rgba 10 20 30 127)
          = (if CHR ''.'' \<in> set (rgba_alpha_token ''RGBA(10, 20, 30, 0.5)'')
             then times255_toInt (rgba_alpha_token ''RGBA(10, 20, 30, 0.5)'')
             else toInt (rgba_alpha_token ''RGBA(10, 20, 30, 0.5)''))"
    by blast
  then show ?thesis
    using p v by (simp add: t)
qed

section \<open>The two colour parsers\<close>







section \<open>Documents the XML parser does not turn into widgets\<close>

text \<open>
  C4, as stated: a well-formed document whose root tag is none of \<^verbatim>\<open>widget\<close>,
  \<^verbatim>\<open>widgets\<close>, \<^verbatim>\<open>milk\<close> yields an empty widget list and a diagnostic. Neither parse
  function has a branch for another root tag: the list is empty, no signal is emitted
  and the last error stays cleared.
\<close>

theorem other_root_no_diagnostic_counterexample:
  "parseString (WellFormed (Element ''panel'' [(''width'', ''100'')] [])) XMLParser_new
     = ([], XMLParser_new)
   \<and> signals XMLParser_new = [] \<and> \<not> hasError XMLParser_new"
  by (simp add: parseString_def XMLParser_new_def hasError_def)

text \<open>
  C4, amended: for every well-formed document whose root tag is none of \<^verbatim>\<open>widget\<close>,
  \<^verbatim>\<open>widgets\<close>, \<^verbatim>\<open>milk\<close>, parsing yields an empty widget list and reports nothing: no
  signal is emitted and \<^verbatim>\<open>hasError()\<close> is false afterwards.
\<close>

theorem other_root_yields_nothing:
  "tagName docElem \<noteq> ''widget'' \<and> tagName docElem \<noteq> ''widgets'' \<and> tagName docElem \<noteq> ''milk''
   \<longrightarrow>
     fst (parseString (WellFormed docElem) p) = []
     \<and> diagnostics p (snd (parseString (WellFormed docElem) p)) = []
     \<and> \<not> hasError (snd (parseString (WellFormed docElem) p))
     \<and> fst (parseFile path dir (Opened (WellFormed docElem)) p) = []
     \<and> diagnostics p (snd (parseFile path dir (Opened (WellFormed docElem)) p)) = []
     \<and> \<not> hasError (snd (parseFile path dir (Opened (WellFormed docElem)) p))"
  by (simp add: parseString_def parseFile_def diagnostics_def hasError_def)

theorem other_root_yields_nothing_witness:
  "tagName (Element ''panel'' [] [Element ''widget'' [] []]) \<noteq> ''widget''
   \<and> fst (parseString (WellFormed (Element ''panel'' [] [Element ''widget'' [] []]))
        XMLParser_new) = []
   \<and> \<not> hasError (snd (parseString (WellFormed (Element ''panel'' [] [Element ''widget'' [] []]))
        XMLParser_new))"
  using other_root_yields_nothing [of "Element ''panel'' [] [Element ''widget'' [] []]"
      XMLParser_new]
  by simp

section \<open>Malformed documents\<close>



section \<open>The stored opacity of a widget\<close>

lemma qBound_unit: "in_unit_interval (qBound (Finite 0) d (Finite 1))"
  by (cases d) (auto simp: qBound_def qMin_def qMax_def in_unit_interval_def)

lemma m_opacity_setOpacity: "m_opacity (setOpacity d w) = qBound (Finite 0) d (Finite 1)"
  by (simp add: setOpacity_def Let_def)

text \<open>No other function assigns \<^verbatim>\<open>m_opacity\<close>.\<close>

lemma m_opacity_setters:
  "m_opacity (setShape s w) = m_opacity w"
  "m_opacity (setRounded r w) = m_opacity w"
  "m_opacity (setSize x y w) = m_opacity w"
  "m_opacity (setBackground c w) = m_opacity w"
  "m_opacity (setBackgroundColor q w) = m_opacity w"
  "m_opacity (setBlur m rd w) = m_opacity w"
  "m_opacity (setGlass g w) = m_opacity w"
  "m_opacity (setShadow q b ox oy w) = m_opacity w"
  "m_opacity (removeShadow w) = m_opacity w"
  "m_opacity (setBorder q n w) = m_opacity w"
  "m_opacity (setBorderStruct bd w) = m_opacity w"
  "m_opacity (removeBorder w) = m_opacity w"
  "m_opacity (setDraggable dr w) = m_opacity w"
  "m_opacity (setMargin n w) = m_opacity w"
  "m_opacity (setAnimationCallback cb w) = m_opacity w"
  "m_opacity (border_attribute t w) = m_opacity w"
  "m_opacity (shadow_attribute t w) = m_opacity w"
  by (simp_all add: setShape_def setRounded_def setSize_def setBackground_def
      setBackgroundColor_def setBlur_def setGlass_def setShadow_def removeShadow_def
      setBorder_def setBorderStruct_def removeBorder_def setDraggable_def setMargin_def
      setAnimationCallback_def border_attribute_def shadow_attribute_def Let_def)

lemma m_opacity_basic:
  "m_opacity (log_event ev w) = m_opacity w"
  "m_opacity (remove_name nm w) = m_opacity w"
  "m_opacity (invoke_callback w) = m_opacity w"
  "m_opacity (QWidget_hide w) = m_opacity w"
  "m_opacity (QWidget_show w) = m_opacity w"
  "m_opacity (deleteLater i w) = m_opacity w"
  by (simp_all add: log_event_def remove_name_def invoke_callback_def QWidget_hide_def
      QWidget_show_def deleteLater_def)

lemma m_opacity_handler_body: "m_opacity (handler_body h w) = m_opacity w"
  by (cases h) (simp_all add: m_opacity_basic)

lemma m_opacity_emit_finished: "m_opacity (emit_finished i w) = m_opacity w"
  by (simp add: emit_finished_def Let_def m_opacity_handler_body m_opacity_basic)

lemma m_opacity_anim_stop: "m_opacity (anim_stop i w) = m_opacity w"
  by (simp add: anim_stop_def Let_def m_opacity_emit_finished)

lemma m_opacity_setCurrentTime: "m_opacity (setCurrentTime i t w) = m_opacity w"
  by (simp add: setCurrentTime_def Let_def m_opacity_anim_stop)

lemma m_opacity_anim_start: "m_opacity (anim_start i w) = m_opacity w"
  by (simp add: anim_start_def Let_def m_opacity_setCurrentTime)

lemma m_opacity_stopAnimation: "m_opacity (stopAnimation nm w) = m_opacity w"
  by (simp add: stopAnimation_def m_opacity_basic m_opacity_anim_stop split: option.splits)

lemma m_opacity_stop_all:
  "m_opacity (fold (\<lambda>(nm, i) x. deleteLater i (anim_stop i x)) xs w) = m_opacity w"
  by (induction xs arbitrary: w) (simp_all add: m_opacity_basic m_opacity_anim_stop split_def)

lemma m_opacity_cleanupAnimations: "m_opacity (cleanupAnimations w) = m_opacity w"
  by (simp add: cleanupAnimations_def m_opacity_stop_all)

lemma m_opacity_animate: "m_opacity (animate nm pr d l h w) = m_opacity w"
  by (simp add: animate_def Let_def m_opacity_anim_start m_opacity_stopAnimation)

lemma m_opacity_perform: "m_opacity (perform r w) = m_opacity w"
  by (cases r)
    (simp_all add: fadeIn_def fadeOut_def fadeTo_def bounce_def pulse_def shake_def scaleTo_def
      moveTo_def slideIn_def slideOut_def m_opacity_animate m_opacity_basic)

lemma m_opacity_show_hide:
  "m_opacity (Widget_show w) = m_opacity w"
  "m_opacity (Widget_hide w) = m_opacity w"
  "m_opacity (stopAnimations w) = m_opacity w"
  "m_opacity (tick e w) = m_opacity w"
  by (simp_all add: Widget_show_def Widget_hide_def stopAnimations_def tick_def Let_def
      fadeIn_def fadeOut_def m_opacity_animate m_opacity_basic m_opacity_cleanupAnimations
      m_opacity_setCurrentTime split: prod.splits)

lemma keeps_opacity_same: "(\<And>w. m_opacity (f w) = m_opacity w) \<Longrightarrow> keeps_opacity f"
  by (simp add: keeps_opacity_def)

lemma keeps_opacity_setOpacity: "keeps_opacity (setOpacity d)"
  by (simp add: keeps_opacity_def m_opacity_setOpacity qBound_unit)

lemma keeps_opacity_assign_if: "keeps_opacity f \<Longrightarrow> keeps_opacity (assign_if c f)"
  by (simp add: keeps_opacity_def assign_if_def)

lemma keeps_opacity_fold:
  "list_all keeps_opacity fs \<Longrightarrow> keeps_opacity (fold (\<lambda>stmt x. stmt x) fs)"
  by (induction fs) (auto simp: keeps_opacity_def)

lemma keeps_opacity_setStyle: "keeps_opacity (setStyle style)"
proof -
  have "list_all keeps_opacity (setStyle_statements style)"
    by (simp add: setStyle_statements_def keeps_opacity_assign_if keeps_opacity_setOpacity
        keeps_opacity_same m_opacity_setters)
  then have "keeps_opacity (fold (\<lambda>stmt x. stmt x) (setStyle_statements style))"
    by (rule keeps_opacity_fold)
  then show ?thesis
    by (simp add: keeps_opacity_def setStyle_def)
qed

lemma keeps_opacity_parseWidgetProperties: "keeps_opacity (parseWidgetProperties e)"
proof -
  have "list_all keeps_opacity (property_statements e)"
    by (simp add: property_statements_def keeps_opacity_assign_if keeps_opacity_setOpacity
        keeps_opacity_same m_opacity_setters)
  then have "keeps_opacity (fold (\<lambda>stmt x. stmt x) (property_statements e))"
    by (rule keeps_opacity_fold)
  then show ?thesis
    by (simp add: keeps_opacity_def parseWidgetProperties_def)
qed

lemma keeps_opacity_apply_op: "keeps_opacity (apply_op x)"
proof (cases x)
  case (Op_setOpacity d)
  then show ?thesis
    using keeps_opacity_setOpacity [of d] by (simp add: keeps_opacity_def)
next
  case (Op_setStyle s)
  then show ?thesis
    using keeps_opacity_setStyle [of s] by (simp add: keeps_opacity_def)
qed (simp_all add: keeps_opacity_def m_opacity_setters m_opacity_perform m_opacity_show_hide)

lemma opacity_after_ops:
  "in_unit_interval (m_opacity w) \<Longrightarrow> in_unit_interval (m_opacity (fold apply_op ops w))"
proof (induction ops arbitrary: w)
  case Nil
  then show ?case by simp
next
  case (Cons x ops)
  from Cons.prems have "in_unit_interval (m_opacity (apply_op x w))"
    using keeps_opacity_apply_op [of x] by (simp add: keeps_opacity_def)
  then show ?case
    using Cons.IH by simp
qed

lemma opacity_new: "in_unit_interval (m_opacity (Widget_new wd ht))"
  by (simp add: Widget_new_def in_unit_interval_def)

lemma opacity_parseWidget: "in_unit_interval (m_opacity (parseWidget e))"
  using keeps_opacity_parseWidgetProperties [of e] opacity_new
  by (simp add: parseWidget_def keeps_opacity_def)

text \<open>
  C9. \<^verbatim>\<open>Widget::setOpacity\<close> clamps its argument into [0.0, 1.0] before storing it (a
  NaN is stored as 0.0), and nothing else assigns \<^verbatim>\<open>m_opacity\<close>: after any sequence of
  operations on a widget, fresh or built from markup, the stored opacity lies in
  [0.0, 1.0], whatever values the callers pass.
\<close>

theorem stored_opacity_in_unit_interval:
  "m_opacity (setOpacity d w) = qBound (Finite 0) d (Finite 1)
   \<and> in_unit_interval (m_opacity (setOpacity d w))
   \<and> in_unit_interval (m_opacity (fold apply_op ops (Widget_new wd ht)))
   \<and> in_unit_interval (m_opacity (fold apply_op ops (parseWidget e)))"
  by (simp add: m_opacity_setOpacity qBound_unit opacity_after_ops opacity_new
      opacity_parseWidget)

theorem stored_opacity_in_unit_interval_witness:
  "m_opacity (setOpacity (Finite 5) (Widget_new 300 200)) = Finite 1
   \<and> m_opacity (setOpacity (Finite (- 2)) (Widget_new 300 200)) = Finite 0
   \<and> m_opacity (setOpacity NaN (Widget_new 300 200)) = Finite 0
   \<and> in_unit_interval (m_opacity (fold apply_op
         [Op_setOpacity (Finite 5), Op_animate (R_fadeIn 300), Op_tick 0 300, Op_hide]
         (Widget_new 300 200)))"
  using stored_opacity_in_unit_interval [of "Finite 5" "Widget_new 300 200"]
    stored_opacity_in_unit_interval [of "Finite (- 2)" "Widget_new 300 200"]
    stored_opacity_in_unit_interval [of NaN "Widget_new 300 200"
      "[Op_setOpacity (Finite 5), Op_animate (R_fadeIn 300), Op_tick 0 300, Op_hide]" 300 200]
  by (simp add: qBound_def qMin_def qMax_def)

section \<open>Animations: what each step touches\<close>

lemma handler_runs_frame:
  "handler_runs i (w\<lparr>heap := hp\<rparr>) = handler_runs i w"
  "handler_runs i (remove_name nm w) = handler_runs i w"
  "handler_runs i (QWidget_hide w) = handler_runs i w"
  "handler_runs i (QWidget_show w) = handler_runs i w"
  "handler_runs i (deleteLater k w) = handler_runs i w"
  "handler_runs i (invoke_callback w) = handler_runs i w"
  "handler_runs i (log_event (Signal_animationFinished an) w) = handler_runs i w"
  "handler_runs i (log_event (Run_finished_handler k) w)
     = handler_runs i w + (if k = i then 1 else 0)"
  by (simp_all add: handler_runs_def remove_name_def QWidget_hide_def QWidget_show_def
      deleteLater_def invoke_callback_def log_event_def)

lemma heap_frame:
  "heap (remove_name nm w) = heap w"
  "heap (QWidget_hide w) = heap w"
  "heap (QWidget_show w) = heap w"
  "heap (invoke_callback w) = heap w"
  "heap (log_event ev w) = heap w"
  by (simp_all add: remove_name_def QWidget_hide_def QWidget_show_def invoke_callback_def
      log_event_def)

lemma handler_body_frame:
  "heap (handler_body h w) = heap w"
  "handler_runs i (handler_body h w) = handler_runs i w"
  by (cases h; simp add: heap_frame handler_runs_frame)+

lemma emit_finished_frame:
  "heap (emit_finished k w) = heap w"
  "handler_runs i (emit_finished k w)
     = handler_runs i w + (if k = i \<and> a_onFinished (heap w ! k) \<noteq> H_none then 1 else 0)"
  by (simp_all add: emit_finished_def Let_def handler_body_frame heap_frame handler_runs_frame)

lemma stopped_update: "a_state a = Stopped \<Longrightarrow> a\<lparr>a_state := Stopped\<rparr> = a"
  by (cases a) simp

lemma anim_stop_heap:
  "heap (anim_stop k w) = (heap w)[k := (heap w ! k)\<lparr>a_state := Stopped\<rparr>]"
  by (simp add: anim_stop_def Let_def emit_finished_frame stopped_update)


lemma setCurrentTime_length: "length (heap (setCurrentTime k t w)) = length (heap w)"
  by (simp add: setCurrentTime_def Let_def anim_stop_heap)

lemma setCurrentTime_other: "i \<noteq> k \<Longrightarrow> heap (setCurrentTime k t w) ! i = heap w ! i"
  by (simp add: setCurrentTime_def Let_def anim_stop_heap)



















text \<open>An animation that loops without end never completes under the driver.\<close>

lemma tick_endless:
  assumes "endless j w"
  shows "endless j (tick e w)"
proof -
  obtain k t where e: "e = (k, t)" by (cases e)
  define a where "a = heap w ! j"
  from assms have j: "j < length (heap w)" and run: "a_state a = Running"
    and lc: "a_loopCount a = - 1" and du: "0 < a_duration a"
    and h: "a_onFinished a = H_none"
    by (simp_all add: endless_def a_def)
  show ?thesis
  proof (cases "k = j")
    case True
    have td: "totalDuration a = - 1"
      using lc du by (simp add: totalDuration_def)
    have "0 \<le> max t 0 div a_duration a"
      using du by (simp add: pos_imp_zdiv_nonneg_iff)
    then have ne: "max t 0 div a_duration a \<noteq> - 1" "max t 0 \<noteq> - 1"
      by simp_all
    have "setCurrentTime j t w
      = w\<lparr>heap := (heap w)[j := a\<lparr>a_totalCurrentTime := max t 0,
            a_currentTime := max t 0 mod a_duration a,
            a_currentLoop := max t 0 div a_duration a\<rparr>]\<rparr>"
      unfolding setCurrentTime_def Let_def a_def [symmetric] td lc
      using du ne by simp
    then show ?thesis
      using j run lc du h True by (simp add: e tick_def endless_def a_def)
  next
    case False
    with assms show ?thesis
      by (simp add: e tick_def endless_def setCurrentTime_length setCurrentTime_other)
  qed
qed

lemma ticks_endless:
  assumes "endless j w"
  shows "endless j (fold tick es w)"
  using assms by (induction es arbitrary: w) (simp_all add: tick_endless)

lemma pulse_is_endless:
  assumes "m_initialized w" "0 < d"
  shows "endless (length (heap (stopAnimation ''pulse'' w))) (fold tick es (pulse d w))"
proof -
  define ws where "ws = stopAnimation ''pulse'' w"
  define j where "j = length (heap ws)"
  define anim where "anim = (createAnimation ''windowOpacity'' d)\<lparr>a_loopCount := - 1,
    a_onFinished := H_none\<rparr>"
  define b where "b = anim\<lparr>a_state := Running, a_totalCurrentTime := 0, a_currentTime := 0,
    a_currentLoop := 0\<rparr>"
  define w3 where "w3 = ws\<lparr>heap := heap ws @ [anim],
    m_animations := (''pulse'', j) # filter (\<lambda>(k, v). k \<noteq> ''pulse'') (m_animations ws)\<rparr>"
  define w4 where "w4 = w3\<lparr>heap := heap ws @ [b]\<rparr>"
  have b: "a_state b = Running" "a_duration b = d" "a_loopCount b = - 1"
    "a_onFinished b = H_none"
    using assms(2) by (simp_all add: b_def anim_def createAnimation_def)
  have td: "totalDuration b = - 1"
    using assms(2) by (simp add: totalDuration_def b)
  have nthj: "\<And>x. (heap ws @ [x]) ! j = x"
    by (simp add: j_def)
  have updj: "\<And>x y. (heap ws @ [x])[j := y] = heap ws @ [y]"
    by (simp add: j_def)
  have "pulse d w = anim_start j w3"
    using assms(1) by (simp add: pulse_def animate_def Let_def ws_def j_def anim_def w3_def)
  also have "\<dots> = setCurrentTime j 0 w4"
    by (simp add: anim_start_def Let_def nthj updj w3_def w4_def b_def anim_def
        createAnimation_def)
  also have "\<dots> = w4\<lparr>heap := heap ws @ [b\<lparr>a_totalCurrentTime := 0, a_currentTime := 0,
      a_currentLoop := 0\<rparr>]\<rparr>"
  proof -
    have 1: "heap w4 ! j = b" by (simp add: w4_def nthj)
    show ?thesis
      unfolding setCurrentTime_def Let_def 1 td b
      using assms(2) by (simp add: w4_def w3_def updj)
  qed
  finally have "endless j (pulse d w)"
    using assms(2) by (simp add: endless_def w4_def w3_def nthj b) (simp add: j_def)
  then show ?thesis
    unfolding ws_def [symmetric] j_def [symmetric] by (rule ticks_endless)
qed

section \<open>A second request while the first animation runs\<close>




end
